theory Spec2Isabelle
  imports Complex_Main
begin

section \<open>JavaScript numbers\<close>

text \<open>
  A JavaScript \<open>number\<close> is an IEEE 754 binary64 value. The finite values are modelled by
  the rationals they denote, with \<open>Fin 0\<close> for positive zero; negative zero and the three
  special values have constructors of their own. Every arithmetic operation computes the
  exact rational result and rounds it to the nearest binary64 value, ties to even
  (\<open>rnd\<close>); the sign of a zero and of an infinity follows the rules of the standard.
\<close>

datatype jsnum = Fin rat | NegZero | PosInf | NegInf | NaN

definition rne :: "rat \<Rightarrow> int" where
  \<comment> \<open>the nearest integer, ties to the even one\<close>
  "rne q = (let f = \<lfloor>q\<rfloor>; d = q - of_int f in
     if d < 1 / 2 then f else if 1 / 2 < d then f + 1 else if even f then f else f + 1)"

function bit_length :: "nat \<Rightarrow> nat" where
  "bit_length n = (if n = 0 then 0 else Suc (bit_length (n div 2)))"
  by pat_completeness auto
termination
  by (relation "measure (\<lambda>n. n)") auto

declare bit_length.simps [simp del]

definition pow2 :: "int \<Rightarrow> rat" where
  "pow2 k = (if 0 \<le> k then 2 ^ nat k else 1 / 2 ^ nat (- k))"

definition ilog2 :: "rat \<Rightarrow> int" where
  \<comment> \<open>for \<open>0 < q\<close>: the \<open>e\<close> with \<open>2 ^ e \<le> q < 2 ^ (e + 1)\<close>\<close>
  "ilog2 q = (let (n, d) = quotient_of q;
                  k = int (bit_length (nat n)) - int (bit_length (nat d))
              in if pow2 k \<le> q then k else k - 1)"

definition inf_of_sign :: "bool \<Rightarrow> jsnum" where
  "inf_of_sign positive = (if positive then PosInf else NegInf)"

definition zero_of_sign :: "bool \<Rightarrow> jsnum" where
  "zero_of_sign positive = (if positive then Fin 0 else NegZero)"

definition rnd :: "rat \<Rightarrow> jsnum" where
  \<comment> \<open>binary64 round-to-nearest-even: 53 significant bits, exponents from -1022
      (subnormals below) to 1023 (infinity above); a result that rounds to zero keeps
      the sign of the exact one\<close>
  "rnd q = (if q = 0 then Fin 0 else
     let a = \<bar>q\<bar>; e = max (ilog2 a) (- 1022); u = pow2 (e - 52);
         m = rne (a / u)
     in if 1023 < e \<or> (e = 1023 \<and> 2 ^ 53 \<le> m) then inf_of_sign (0 < q)
        else if m = 0 then zero_of_sign (0 < q)
        else Fin (if 0 < q then of_int m * u else - (of_int m * u)))"

definition is_double :: "rat \<Rightarrow> bool" where
  \<comment> \<open>the rational is a binary64 value\<close>
  "is_double q = (rnd q = Fin q)"

definition num :: "int \<Rightarrow> jsnum" where
  \<comment> \<open>an integer as a number; the program's integers (timestamps, counters) are below
      \<open>2 ^ 53\<close> in magnitude, where this is exact\<close>
  "num i = Fin (of_int i)"

fun val :: "jsnum \<Rightarrow> rat" where
  \<comment> \<open>the rational that a finite number denotes\<close>
  "val (Fin a) = a"
| "val x = 0"

fun is_zero :: "jsnum \<Rightarrow> bool" where
  "is_zero (Fin a) = (a = 0)"
| "is_zero NegZero = True"
| "is_zero x = False"

fun is_inf :: "jsnum \<Rightarrow> bool" where
  "is_inf PosInf = True"
| "is_inf NegInf = True"
| "is_inf x = False"

fun positive :: "jsnum \<Rightarrow> bool" where
  \<comment> \<open>the sign bit is clear\<close>
  "positive (Fin a) = (0 \<le> a)"
| "positive NegZero = False"
| "positive PosInf = True"
| "positive NegInf = False"
| "positive NaN = True"

fun jneg :: "jsnum \<Rightarrow> jsnum" where
  "jneg (Fin a) = (if a = 0 then NegZero else Fin (- a))"
| "jneg NegZero = Fin 0"
| "jneg PosInf = NegInf"
| "jneg NegInf = PosInf"
| "jneg NaN = NaN"

definition jadd :: "jsnum \<Rightarrow> jsnum \<Rightarrow> jsnum" where
  \<comment> \<open>opposite infinities add up to NaN; two zeros add up to negative zero only when both
      are negative; an exact sum of zero is positive zero\<close>
  "jadd x y =
     (if x = NaN \<or> y = NaN then NaN
      else if is_inf x then (if is_inf y \<and> x \<noteq> y then NaN else x)
      else if is_inf y then y
      else if x = NegZero \<and> y = NegZero then NegZero
      else if val x + val y = 0 then Fin 0
      else rnd (val x + val y))"

definition jsub :: "jsnum \<Rightarrow> jsnum \<Rightarrow> jsnum" where
  "jsub x y = jadd x (jneg y)"

definition jmul :: "jsnum \<Rightarrow> jsnum \<Rightarrow> jsnum" where
  \<comment> \<open>the sign is positive when the two signs agree; zero times infinity is NaN\<close>
  "jmul x y =
     (if x = NaN \<or> y = NaN then NaN
      else if is_inf x \<or> is_inf y
        then (if is_zero x \<or> is_zero y then NaN else inf_of_sign (positive x = positive y))
      else if is_zero x \<or> is_zero y then zero_of_sign (positive x = positive y)
      else rnd (val x * val y))"

definition jdiv :: "jsnum \<Rightarrow> jsnum \<Rightarrow> jsnum" where
  \<comment> \<open>the sign is positive when the two signs agree; zero by zero and infinity by
      infinity are NaN; another number by zero is an infinity\<close>
  "jdiv x y =
     (if x = NaN \<or> y = NaN then NaN
      else if is_inf x
        then (if is_inf y then NaN else inf_of_sign (positive x = positive y))
      else if is_inf y then zero_of_sign (positive x = positive y)
      else if is_zero y
        then (if is_zero x then NaN else inf_of_sign (positive x = positive y))
      else if is_zero x then zero_of_sign (positive x = positive y)
      else rnd (val x / val y))"

fun jabs :: "jsnum \<Rightarrow> jsnum" where
  \<comment> \<open>\<open>Math.abs\<close>\<close>
  "jabs (Fin a) = Fin \<bar>a\<bar>"
| "jabs NegZero = Fin 0"
| "jabs PosInf = PosInf"
| "jabs NegInf = PosInf"
| "jabs NaN = NaN"

fun jfloor :: "jsnum \<Rightarrow> jsnum" where
  \<comment> \<open>\<open>Math.floor\<close>\<close>
  "jfloor (Fin a) = Fin (of_int \<lfloor>a\<rfloor>)"
| "jfloor x = x"

definition jgt :: "jsnum \<Rightarrow> jsnum \<Rightarrow> bool" where
  \<comment> \<open>\<open>x > y\<close>: false as soon as one side is NaN; the two zeros are equal\<close>
  "jgt x y =
     (if x = NaN \<or> y = NaN then False
      else if x = PosInf then y \<noteq> PosInf
      else if y = NegInf then x \<noteq> NegInf
      else if x = NegInf \<or> y = PosInf then False
      else val y < val x)"

definition falsy_num :: "jsnum \<Rightarrow> bool" where
  \<comment> \<open>the numbers that are false in a boolean context: the two zeros and NaN\<close>
  "falsy_num x = (is_zero x \<or> x = NaN)"

text \<open>
  A decimal column of the schema holds a string. The string is modelled by the number
  that \<open>parseFloat\<close> reads from it, so that \<open>parseFloat\<close> is the identity: the string
  \<open>-0\<close> is negative zero, a string that is no number is NaN. \<open>toString\<close> writes a number
  as the string that reads back to it, except negative zero, which it writes as \<open>0\<close>.
  The strings of a column are not empty, so they are true in a boolean context.
\<close>

type_synonym decimal = jsnum

definition toString :: "jsnum \<Rightarrow> decimal" where
  "toString x = (if x = NegZero then Fin 0 else x)"

definition parseFloat :: "decimal \<Rightarrow> jsnum" where
  "parseFloat d = d"

section \<open>The schema\<close>

record HistoricalPrice =
  hp_id :: nat
  hp_tokenAddress :: string
  hp_network :: string
  hp_timestamp :: int
  hp_price :: decimal
  hp_marketCap :: "decimal option"
  hp_volume :: "decimal option"
  hp_createdAt :: int

section \<open>The interpolation service\<close>

record InterpolationDetails =
  beforePrice :: jsnum
  afterPrice :: jsnum
  beforeTimestamp :: int
  afterTimestamp :: int
  ratio :: jsnum

record InterpolationResult =
  ir_price :: jsnum
  ir_source :: string
  ir_details :: InterpolationDetails

definition interpolatePrice ::
  "int \<Rightarrow> HistoricalPrice \<Rightarrow> HistoricalPrice \<Rightarrow> InterpolationResult" where
  "interpolatePrice targetTimestamp beforeP afterP =
     (let beforeTs = hp_timestamp beforeP;
          afterTs = hp_timestamp afterP;
          beforePriceValue = parseFloat (hp_price beforeP);
          afterPriceValue = parseFloat (hp_price afterP);
          r = jdiv (num (targetTimestamp - beforeTs)) (num (afterTs - beforeTs));
          interpolatedPrice =
            jadd beforePriceValue (jmul (jsub afterPriceValue beforePriceValue) r)
      in \<lparr>ir_price = interpolatedPrice,
          ir_source = ''interpolated'',
          ir_details = \<lparr>beforePrice = beforePriceValue,
                        afterPrice = afterPriceValue,
                        beforeTimestamp = beforeTs,
                        afterTimestamp = afterTs,
                        ratio = r\<rparr>\<rparr>)"

definition canInterpolate :: "HistoricalPrice \<Rightarrow> HistoricalPrice \<Rightarrow> int \<Rightarrow> bool" where
  "canInterpolate beforeP afterP targetTimestamp =
     (let beforeTs = hp_timestamp beforeP;
          afterTs = hp_timestamp afterP;
          beforePriceValue = parseFloat (hp_price beforeP);
          afterPriceValue = parseFloat (hp_price afterP)
      in if targetTimestamp \<le> beforeTs \<or> afterTs \<le> targetTimestamp then False
         else let timeGap = afterTs - beforeTs;
                  maxGap = 7 * 24 * 60 * 60
              in if maxGap < timeGap then False
                 else let priceChange =
                            jdiv (jabs (jsub afterPriceValue beforePriceValue)) beforePriceValue
                      in if jgt priceChange (Fin (1 / 2)) then False
                         else True)"

section \<open>Exceptions and asynchronous calls\<close>

text \<open>
  An \<open>async\<close> function is a state transformer that either returns a value or throws.
  \<open>await\<close> runs a call and passes its value on; a thrown exception skips the rest, with
  the state as the call left it. \<open>try_catch\<close> is a \<open>try { } catch (error) { }\<close> block.
\<close>

datatype error = Error string | TypeError string

fun message :: "error \<Rightarrow> string" where
  "message (Error m) = m"
| "message (TypeError m) = m"

type_synonym ('a, 's) action = "'s \<Rightarrow> (error + 'a) \<times> 's"

definition ret :: "'a \<Rightarrow> ('a, 's) action" where
  "ret x = (\<lambda>s. (Inr x, s))"

definition throw :: "error \<Rightarrow> ('a, 's) action" where
  "throw e = (\<lambda>s. (Inl e, s))"

definition await :: "('a, 's) action \<Rightarrow> ('a \<Rightarrow> ('b, 's) action) \<Rightarrow> ('b, 's) action" where
  "await m f = (\<lambda>s. case m s of (Inl e, s') \<Rightarrow> (Inl e, s') | (Inr x, s') \<Rightarrow> f x s')"

definition try_catch :: "('a, 's) action \<Rightarrow> (error \<Rightarrow> ('a, 's) action) \<Rightarrow> ('a, 's) action" where
  "try_catch m h = (\<lambda>s. case m s of (Inl e, s') \<Rightarrow> h e s' | (Inr x, s') \<Rightarrow> (Inr x, s'))"

section \<open>Strings of integers\<close>

function digits :: "nat \<Rightarrow> string" where
  "digits n = (if n < 10 then [''0123456789'' ! n]
               else digits (n div 10) @ [''0123456789'' ! (n mod 10)])"
  by pat_completeness auto
termination
  by (relation "measure (\<lambda>n. n)") auto

declare digits.simps [simp del]

definition show_int :: "int \<Rightarrow> string" where
  \<comment> \<open>an integer inside a template literal\<close>
  "show_int i = (if i < 0 then CHR ''-'' # digits (nat (- i)) else digits (nat i))"

section \<open>The rest of the schema\<close>

record InsertHistoricalPrice =
  ihp_tokenAddress :: string
  ihp_network :: string
  ihp_timestamp :: int
  ihp_price :: decimal
  ihp_marketCap :: "decimal option"
  ihp_volume :: "decimal option"

record InsertPriceQuery =
  ipq_tokenAddress :: string
  ipq_network :: string
  ipq_timestamp :: int
  ipq_price :: "decimal option"
  ipq_source :: string

record PriceQuery =
  pq_id :: nat
  pq_tokenAddress :: string
  pq_network :: string
  pq_timestamp :: int
  pq_price :: "decimal option"
  pq_source :: string
  pq_createdAt :: int

record InsertBulkFetchJob =
  ibj_tokenAddress :: string
  ibj_network :: string
  ibj_status :: string
  ibj_progress :: "jsnum option"
  ibj_totalDays :: "jsnum option"

record BulkFetchJob =
  job_id :: nat
  job_tokenAddress :: string
  job_network :: string
  job_status :: string
  job_progress :: "jsnum option"
  job_totalDays :: "jsnum option"
  job_createdAt :: int
  job_completedAt :: "int option"

text \<open>
  A \<open>Partial<BulkFetchJob>\<close> with the keys the worker passes; \<open>None\<close> is an absent key.
\<close>

record BulkFetchJobUpdate =
  up_status :: "string option"
  up_progress :: "jsnum option"
  up_totalDays :: "jsnum option"

definition no_update :: BulkFetchJobUpdate where
  "no_update = \<lparr>up_status = None, up_progress = None, up_totalDays = None\<rparr>"

section \<open>The storage interface and the in-memory storage\<close>

record 's IStorage =
  createPriceQuery :: "InsertPriceQuery \<Rightarrow> (PriceQuery, 's) action"
  createHistoricalPrice :: "InsertHistoricalPrice \<Rightarrow> (HistoricalPrice, 's) action"
  getHistoricalPrice :: "string \<Rightarrow> string \<Rightarrow> int \<Rightarrow> (HistoricalPrice option, 's) action"
  getNearestHistoricalPrices ::
    "string \<Rightarrow> string \<Rightarrow> int \<Rightarrow> (HistoricalPrice option \<times> HistoricalPrice option, 's) action"
  createBulkFetchJob :: "InsertBulkFetchJob \<Rightarrow> (BulkFetchJob, 's) action"
  getActiveBulkFetchJobs :: "(BulkFetchJob list, 's) action"
  updateBulkFetchJob :: "nat \<Rightarrow> BulkFetchJobUpdate \<Rightarrow> (unit, 's) action"

text \<open>
  A JavaScript \<open>Map\<close> keeps its entries in insertion order; \<open>set\<close> on a present key
  replaces the value where it stands, on a new key it appends.
\<close>

fun Map_set :: "'k \<Rightarrow> 'v \<Rightarrow> ('k \<times> 'v) list \<Rightarrow> ('k \<times> 'v) list" where
  "Map_set k v [] = [(k, v)]"
| "Map_set k v ((k', v') # m) = (if k' = k then (k, v) # m else (k', v') # Map_set k v m)"

definition Map_get :: "'k \<Rightarrow> ('k \<times> 'v) list \<Rightarrow> 'v option" where
  "Map_get k m = map_of m k"

definition Map_values :: "('k \<times> 'v) list \<Rightarrow> 'v list" where
  "Map_values m = map snd m"

record MemStorage =
  priceQueries :: "(nat \<times> PriceQuery) list"
  historicalPrices :: "(string \<times> HistoricalPrice) list"
  bulkFetchJobs :: "(nat \<times> BulkFetchJob) list"
  currentQueryId :: nat
  currentPriceId :: nat
  currentJobId :: nat
  clock :: int \<comment> \<open>what \<open>new Date()\<close> reads\<close>

definition MemStorage_new :: "int \<Rightarrow> MemStorage" where
  "MemStorage_new t = \<lparr>priceQueries = [], historicalPrices = [], bulkFetchJobs = [],
     currentQueryId = 1, currentPriceId = 1, currentJobId = 1, clock = t\<rparr>"

definition or_null_num :: "jsnum option \<Rightarrow> jsnum option" where
  \<comment> \<open>\<open>x || null\<close> on a number that may be null or undefined\<close>
  "or_null_num x = (case x of None \<Rightarrow> None | Some v \<Rightarrow> if falsy_num v then None else Some v)"

definition or_null_str :: "decimal option \<Rightarrow> decimal option" where
  \<comment> \<open>\<open>x || null\<close> on a decimal string that may be null or undefined\<close>
  "or_null_str x = x"

definition Mem_createPriceQuery :: "InsertPriceQuery \<Rightarrow> (PriceQuery, MemStorage) action" where
  "Mem_createPriceQuery query = (\<lambda>s.
     let ident = currentQueryId s;
         s1 = s\<lparr>currentQueryId := ident + 1\<rparr>;
         priceQuery = \<lparr>pq_id = ident,
                       pq_tokenAddress = ipq_tokenAddress query,
                       pq_network = ipq_network query,
                       pq_timestamp = ipq_timestamp query,
                       pq_price = or_null_str (ipq_price query),
                       pq_source = ipq_source query,
                       pq_createdAt = clock s1\<rparr>
     in (Inr priceQuery, s1\<lparr>priceQueries := Map_set ident priceQuery (priceQueries s1)\<rparr>))"

definition price_key :: "string \<Rightarrow> string \<Rightarrow> int \<Rightarrow> string" where
  "price_key tokenAddress network timestamp =
     tokenAddress @ ''-'' @ network @ ''-'' @ show_int timestamp"

definition Mem_createHistoricalPrice ::
  "InsertHistoricalPrice \<Rightarrow> (HistoricalPrice, MemStorage) action" where
  "Mem_createHistoricalPrice price = (\<lambda>s.
     let ident = currentPriceId s;
         s1 = s\<lparr>currentPriceId := ident + 1\<rparr>;
         historicalPrice = \<lparr>hp_id = ident,
                            hp_tokenAddress = ihp_tokenAddress price,
                            hp_network = ihp_network price,
                            hp_timestamp = ihp_timestamp price,
                            hp_price = ihp_price price,
                            hp_marketCap = or_null_str (ihp_marketCap price),
                            hp_volume = or_null_str (ihp_volume price),
                            hp_createdAt = clock s1\<rparr>;
         key = price_key (ihp_tokenAddress price) (ihp_network price) (ihp_timestamp price)
     in (Inr historicalPrice,
         s1\<lparr>historicalPrices := Map_set key historicalPrice (historicalPrices s1)\<rparr>))"

definition Mem_getHistoricalPrice ::
  "string \<Rightarrow> string \<Rightarrow> int \<Rightarrow> (HistoricalPrice option, MemStorage) action" where
  "Mem_getHistoricalPrice tokenAddress network timestamp = (\<lambda>s.
     let key = price_key tokenAddress network timestamp
     in (Inr (Map_get key (historicalPrices s)), s))"

definition first_of :: "'a list \<Rightarrow> 'a option" where
  \<comment> \<open>\<open>xs[0]\<close>, undefined on the empty array\<close>
  "first_of xs = (case xs of [] \<Rightarrow> None | x # _ \<Rightarrow> Some x)"

definition Mem_getNearestHistoricalPrices ::
  "string \<Rightarrow> string \<Rightarrow> int
     \<Rightarrow> (HistoricalPrice option \<times> HistoricalPrice option, MemStorage) action" where
  "Mem_getNearestHistoricalPrices tokenAddress network timestamp = (\<lambda>s.
     let prices = filter (\<lambda>p. hp_tokenAddress p = tokenAddress \<and> hp_network p = network)
                    (Map_values (historicalPrices s));
         before = first_of (sort_key (\<lambda>p. - hp_timestamp p)
                    (filter (\<lambda>p. hp_timestamp p < timestamp) prices));
         after = first_of (sort_key (\<lambda>p. hp_timestamp p)
                    (filter (\<lambda>p. timestamp < hp_timestamp p) prices))
     in (Inr (before, after), s))"

definition Mem_createBulkFetchJob :: "InsertBulkFetchJob \<Rightarrow> (BulkFetchJob, MemStorage) action" where
  "Mem_createBulkFetchJob job = (\<lambda>s.
     let ident = currentJobId s;
         s1 = s\<lparr>currentJobId := ident + 1\<rparr>;
         bulkFetchJob = \<lparr>job_id = ident,
                         job_tokenAddress = ibj_tokenAddress job,
                         job_network = ibj_network job,
                         job_status = ibj_status job,
                         job_progress = or_null_num (ibj_progress job),
                         job_totalDays = or_null_num (ibj_totalDays job),
                         job_createdAt = clock s1,
                         job_completedAt = None\<rparr>
     in (Inr bulkFetchJob, s1\<lparr>bulkFetchJobs := Map_set ident bulkFetchJob (bulkFetchJobs s1)\<rparr>))"

definition Mem_getActiveBulkFetchJobs :: "(BulkFetchJob list, MemStorage) action" where
  "Mem_getActiveBulkFetchJobs = (\<lambda>s.
     (Inr (filter (\<lambda>job. job_status job = ''pending'' \<or> job_status job = ''processing'')
             (Map_values (bulkFetchJobs s))), s))"

definition assign :: "BulkFetchJob \<Rightarrow> BulkFetchJobUpdate \<Rightarrow> BulkFetchJob" where
  \<comment> \<open>\<open>Object.assign(job, updates)\<close>: every key present in the update is copied\<close>
  "assign job updates =
     job\<lparr>job_status := (case up_status updates of None \<Rightarrow> job_status job | Some v \<Rightarrow> v),
         job_progress := (case up_progress updates of None \<Rightarrow> job_progress job | Some v \<Rightarrow> Some v),
         job_totalDays := (case up_totalDays updates of None \<Rightarrow> job_totalDays job | Some v \<Rightarrow> Some v)\<rparr>"

definition Mem_updateBulkFetchJob :: "nat \<Rightarrow> BulkFetchJobUpdate \<Rightarrow> (unit, MemStorage) action" where
  "Mem_updateBulkFetchJob ident updates = (\<lambda>s.
     case Map_get ident (bulkFetchJobs s) of
       None \<Rightarrow> (Inr (), s)
     | Some job \<Rightarrow>
         let job1 = assign job updates;
             job2 = (if up_status updates = Some ''completed''
                     then job1\<lparr>job_completedAt := Some (clock s)\<rparr> else job1)
         in (Inr (), s\<lparr>bulkFetchJobs := Map_set ident job2 (bulkFetchJobs s)\<rparr>))"

definition MemStorage_ops :: "MemStorage IStorage" where
  "MemStorage_ops = \<lparr>createPriceQuery = Mem_createPriceQuery,
     createHistoricalPrice = Mem_createHistoricalPrice,
     getHistoricalPrice = Mem_getHistoricalPrice,
     getNearestHistoricalPrices = Mem_getNearestHistoricalPrices,
     createBulkFetchJob = Mem_createBulkFetchJob,
     getActiveBulkFetchJobs = Mem_getActiveBulkFetchJobs,
     updateBulkFetchJob = Mem_updateBulkFetchJob\<rparr>"

section \<open>The cache service\<close>

text \<open>
  What the price route puts on the wire: the result object of a tier, and the JSON text
  made of it, represented by the object that \<open>JSON.parse\<close> reads back.
  \<open>JSON.stringify\<close> writes a number that is not finite as \<open>null\<close> and leaves an
  undefined member out; \<open>None\<close> stands for both.
\<close>

record PriceResult =
  r_price :: jsnum
  r_source :: string
  r_marketCap :: "jsnum option"
  r_volume :: "jsnum option"
  r_details :: "InterpolationDetails option"

record DetailsJson =
  dj_beforePrice :: "jsnum option"
  dj_afterPrice :: "jsnum option"
  dj_beforeTimestamp :: int
  dj_afterTimestamp :: int
  dj_ratio :: "jsnum option"

record PriceJson =
  j_price :: "jsnum option"
  j_source :: string
  j_marketCap :: "jsnum option"
  j_volume :: "jsnum option"
  j_details :: "DetailsJson option"

fun json_num :: "jsnum \<Rightarrow> jsnum option" where
  \<comment> \<open>a number after \<open>JSON.stringify\<close> and \<open>JSON.parse\<close>: negative zero is written
      as \<open>0\<close>, a number that is not finite as \<open>null\<close>\<close>
  "json_num (Fin a) = Some (Fin a)"
| "json_num NegZero = Some (Fin 0)"
| "json_num x = None"

definition details_to_json :: "InterpolationDetails \<Rightarrow> DetailsJson" where
  "details_to_json d = \<lparr>dj_beforePrice = json_num (beforePrice d),
                        dj_afterPrice = json_num (afterPrice d),
                        dj_beforeTimestamp = beforeTimestamp d,
                        dj_afterTimestamp = afterTimestamp d,
                        dj_ratio = json_num (ratio d)\<rparr>"

definition to_json :: "PriceResult \<Rightarrow> PriceJson" where
  "to_json r = \<lparr>j_price = json_num (r_price r),
                j_source = r_source r,
                j_marketCap = Option.bind (r_marketCap r) json_num,
                j_volume = Option.bind (r_volume r) json_num,
                j_details = map_option details_to_json (r_details r)\<rparr>"

text \<open>
  The Redis server is outside the program. Its client is modelled by the entries it holds,
  each with the time to live it was written with, and by a schedule of outages: the head
  of \<open>outages\<close> tells whether the next call of the client rejects, and an empty schedule
  means that every further call succeeds. Expiry is the server's work and happens
  between requests.
\<close>

record RedisClient =
  entries :: "string \<Rightarrow> (nat \<times> PriceJson) option"
  outages :: "bool list"

definition next_call :: "RedisClient \<Rightarrow> bool \<times> RedisClient" where
  \<comment> \<open>whether the next call of the client rejects, and the client after it\<close>
  "next_call c = (case outages c of [] \<Rightarrow> (False, c) | b # bs \<Rightarrow> (b, c\<lparr>outages := bs\<rparr>))"

definition redis_get :: "string \<Rightarrow> RedisClient \<Rightarrow> PriceJson option \<times> RedisClient" where
  \<comment> \<open>\<open>RedisService.get\<close>: an error of the client is logged and null is returned\<close>
  "redis_get key c =
     (let (rejects, c1) = next_call c
      in if rejects then (None, c1) else (map_option snd (entries c1 key), c1))"

definition redis_set :: "string \<Rightarrow> PriceJson \<Rightarrow> nat \<Rightarrow> RedisClient \<Rightarrow> RedisClient" where
  \<comment> \<open>\<open>RedisService.set\<close>: an error of the client is logged and nothing is written\<close>
  "redis_set key v ttlSeconds c =
     (let (rejects, c1) = next_call c
      in if rejects then c1 else c1\<lparr>entries := (entries c1)(key \<mapsto> (ttlSeconds, v))\<rparr>)"

definition cache_key :: "string \<Rightarrow> string \<Rightarrow> int \<Rightarrow> string" where
  "cache_key tokenAddress network timestamp =
     ''price:'' @ tokenAddress @ '':'' @ network @ '':'' @ show_int timestamp"

definition getCachedPrice ::
  "string \<Rightarrow> string \<Rightarrow> int \<Rightarrow> RedisClient \<Rightarrow> PriceJson option \<times> RedisClient" where
  "getCachedPrice tokenAddress network timestamp c =
     redis_get (cache_key tokenAddress network timestamp) c"

definition setCachedPrice ::
  "string \<Rightarrow> string \<Rightarrow> int \<Rightarrow> PriceResult \<Rightarrow> RedisClient \<Rightarrow> RedisClient" where
  "setCachedPrice tokenAddress network timestamp price c =
     redis_set (cache_key tokenAddress network timestamp) (to_json price) 300 c"

section \<open>The provider service\<close>

text \<open>
  \<open>pRetry\<close> comes from the p-retry library, a dependency of the program. It is modelled
  from the library's documentation: the option \<open>retries\<close> is the number of retries after
  the first attempt; the wait before retry number \<open>i\<close> (from 0) is
  \<open>minTimeout * factor ^ i\<close>, at most \<open>maxTimeout\<close>, with no randomisation unless it is
  asked for; an attempt that throws an \<open>Error\<close> is retried while retries are left, and
  the error of the last attempt is thrown when none is. The function returns, with the
  outcome, the waits it made.
\<close>

record RetryOptions =
  retries :: nat
  factor :: nat
  minTimeout :: nat
  maxTimeout :: nat

definition createTimeout :: "RetryOptions \<Rightarrow> nat \<Rightarrow> nat" where
  "createTimeout opts attempt =
     min (max (minTimeout opts) 1 * factor opts ^ attempt) (maxTimeout opts)"

definition timeouts :: "RetryOptions \<Rightarrow> nat list" where
  "timeouts opts = map (createTimeout opts) [0..<retries opts]"

fun pRetry_from :: "(nat \<Rightarrow> error + 'a) \<Rightarrow> nat \<Rightarrow> nat list \<Rightarrow> (error + 'a) \<times> nat list" where
  "pRetry_from input attemptNumber [] = (input attemptNumber, [])"
| "pRetry_from input attemptNumber (t # ts) =
     (case input attemptNumber of
        Inr v \<Rightarrow> (Inr v, [])
      | Inl e \<Rightarrow> (let (r, waits) = pRetry_from input (attemptNumber + 1) ts in (r, t # waits)))"

definition pRetry :: "(nat \<Rightarrow> error + 'a) \<Rightarrow> RetryOptions \<Rightarrow> (error + 'a) \<times> nat list" where
  "pRetry input opts = pRetry_from input 1 (timeouts opts)"

record TokenPrice =
  tp_price :: jsnum
  tp_timestamp :: int
  tp_marketCap :: "jsnum option"
  tp_volume :: "jsnum option"

text \<open>
  The provider is outside the program. It is modelled by what it answers: for the price
  of a token at a timestamp, the HTTP response to each attempt (the status, and the body
  when it parses as JSON); for the first transfer of a token, the outcome of each attempt
  of the two SDK calls. A \<open>fetch\<close> that rejects before any response is not modelled.
\<close>

record HttpResponse =
  status :: nat
  body :: "TokenPrice option"

datatype SdkOutcome = NoTransfers | FirstBlock int | SdkError string

record Alchemy =
  historical_prices :: "string \<Rightarrow> string \<Rightarrow> int \<Rightarrow> nat \<Rightarrow> HttpResponse"
  asset_transfers :: "string \<Rightarrow> string \<Rightarrow> nat \<Rightarrow> SdkOutcome"

definition response_ok :: "HttpResponse \<Rightarrow> bool" where
  "response_ok r = (200 \<le> status r \<and> status r \<le> 299)"

definition price_attempt :: "HttpResponse \<Rightarrow> error + TokenPrice" where
  \<comment> \<open>the callback that \<open>getTokenPrice\<close> hands to \<open>pRetry\<close>, on the response it gets\<close>
  "price_attempt response =
     (if status response = 429 then Inl (Error ''Rate limited'')
      else if \<not> response_ok response
        then Inl (Error (''HTTP error! status: '' @ digits (status response)))
      else case body response of
             None \<Rightarrow> Inl (Error ''Unexpected end of JSON input'')
           | Some data \<Rightarrow> Inr data)"

text \<open>
  Each of the two provider calls hands \<open>pRetry\<close> its callback and an options literal of
  its own, and catches what \<open>pRetry\<close> throws. The \<open>_run\<close> functions are the two
  \<open>pRetry\<close> calls, with the waits they made.
\<close>

definition getTokenPrice_run ::
  "Alchemy \<Rightarrow> string \<Rightarrow> string \<Rightarrow> int \<Rightarrow> (error + TokenPrice) \<times> nat list" where
  "getTokenPrice_run alchemy tokenAddress network timestamp =
     pRetry (\<lambda>attemptNumber.
        price_attempt (historical_prices alchemy tokenAddress network timestamp attemptNumber))
       \<lparr>retries = 3, factor = 2, minTimeout = 1000, maxTimeout = 5000\<rparr>"

definition getTokenPrice :: "Alchemy \<Rightarrow> string \<Rightarrow> string \<Rightarrow> int \<Rightarrow> TokenPrice option" where
  "getTokenPrice alchemy tokenAddress network timestamp =
     (case fst (getTokenPrice_run alchemy tokenAddress network timestamp) of
        Inr result \<Rightarrow> Some result
      | Inl e \<Rightarrow> None)"

definition creation_attempt :: "SdkOutcome \<Rightarrow> error + int" where
  \<comment> \<open>the callback that \<open>getTokenCreationDate\<close> hands to \<open>pRetry\<close>, on the outcome of
      its SDK calls\<close>
  "creation_attempt outcome =
     (case outcome of
        NoTransfers \<Rightarrow> Inl (Error ''No transfers found'')
      | FirstBlock t \<Rightarrow> Inr t
      | SdkError m \<Rightarrow> Inl (Error m))"

definition getTokenCreationDate_run ::
  "Alchemy \<Rightarrow> string \<Rightarrow> string \<Rightarrow> (error + int) \<times> nat list" where
  "getTokenCreationDate_run alchemy tokenAddress network =
     pRetry (\<lambda>attemptNumber.
        creation_attempt (asset_transfers alchemy tokenAddress network attemptNumber))
       \<lparr>retries = 3, factor = 2, minTimeout = 1000, maxTimeout = 5000\<rparr>"

definition getTokenCreationDate :: "Alchemy \<Rightarrow> string \<Rightarrow> string \<Rightarrow> int option" where
  "getTokenCreationDate alchemy tokenAddress network =
     (case fst (getTokenCreationDate_run alchemy tokenAddress network) of
        Inr result \<Rightarrow> Some result
      | Inl e \<Rightarrow> None)"

definition slice :: "'a list \<Rightarrow> nat \<Rightarrow> nat \<Rightarrow> 'a list" where
  \<comment> \<open>\<open>xs.slice(i, j)\<close> for \<open>0 \<le> i \<le> j\<close>\<close>
  "slice xs i j = take (j - i) (drop i xs)"

text \<open>
  The batched lookup: the loop of \<open>batchGetHistoricalPrices\<close> from index \<open>i\<close>, with
  the results so far. \<open>getTokenPrice\<close> never rejects, so every settled promise is
  fulfilled. The pause of one second between two batches is not modelled.
\<close>

function batchGet_from ::
  "Alchemy \<Rightarrow> string \<Rightarrow> string \<Rightarrow> int list \<Rightarrow> nat \<Rightarrow> TokenPrice option list
     \<Rightarrow> TokenPrice option list" where
  "batchGet_from alchemy tokenAddress network timestamps i results =
     (if i < length timestamps
      then let batch = slice timestamps i (i + 10);
               batchResults = map (getTokenPrice alchemy tokenAddress network) batch
           in batchGet_from alchemy tokenAddress network timestamps (i + 10)
                (results @ batchResults)
      else results)"
  by pat_completeness auto
termination
  by (relation "measure (\<lambda>(alchemy, tokenAddress, network, timestamps, i, results).
        length timestamps - i)") auto

declare batchGet_from.simps [simp del]

definition batchGetHistoricalPrices ::
  "Alchemy \<Rightarrow> string \<Rightarrow> string \<Rightarrow> int list \<Rightarrow> TokenPrice option list" where
  "batchGetHistoricalPrices alchemy tokenAddress network timestamps =
     batchGet_from alchemy tokenAddress network timestamps 0 []"

section \<open>The price route\<close>

record PriceRequest =
  req_token :: string
  req_network :: string
  req_timestamp :: int

datatype Response = Json PriceJson | NotFound | InternalServerError string

record 's World =
  redis :: RedisClient
  store :: 's

definition on_store :: "('a, 's) action \<Rightarrow> ('a, 's World) action" where
  "on_store m = (\<lambda>w. case m (store w) of (r, s') \<Rightarrow> (r, w\<lparr>store := s'\<rparr>))"

definition on_redis :: "(RedisClient \<Rightarrow> 'a \<times> RedisClient) \<Rightarrow> ('a, 's World) action" where
  \<comment> \<open>the calls of the cache service never throw\<close>
  "on_redis f = (\<lambda>w. case f (redis w) of (x, c') \<Rightarrow> (Inr x, w\<lparr>redis := c'\<rparr>))"

definition audit :: "string \<Rightarrow> string \<Rightarrow> int \<Rightarrow> decimal \<Rightarrow> string \<Rightarrow> InsertPriceQuery" where
  "audit tokenAddress network timestamp price source =
     \<lparr>ipq_tokenAddress = tokenAddress, ipq_network = network, ipq_timestamp = timestamp,
      ipq_price = Some price, ipq_source = source\<rparr>"

definition price_route_body ::
  "'s IStorage \<Rightarrow> Alchemy \<Rightarrow> PriceRequest \<Rightarrow> (Response, 's World) action" where
  "price_route_body storage alchemyService req =
     (let token = req_token req; network = req_network req; timestamp = req_timestamp req in
      await (on_redis (getCachedPrice token network timestamp)) (\<lambda>cached.
      case cached of
        Some c \<Rightarrow>
          (case j_price c of
             None \<Rightarrow> throw (TypeError ''Cannot read properties of null (reading 'toString')'')
           | Some p \<Rightarrow>
               await (on_store (createPriceQuery storage
                        (audit token network timestamp (toString p) ''cache''))) (\<lambda>_.
               ret (Json \<lparr>j_price = json_num p,
                          j_source = ''cache'',
                          j_marketCap = Option.bind (j_marketCap c) json_num,
                          j_volume = Option.bind (j_volume c) json_num,
                          j_details = None\<rparr>)))
      | None \<Rightarrow>
          await (on_store (getHistoricalPrice storage token network timestamp)) (\<lambda>existingPrice.
          case existingPrice of
            Some e \<Rightarrow>
              (let result = \<lparr>r_price = parseFloat (hp_price e),
                             r_source = ''storage'',
                             r_marketCap = map_option parseFloat (hp_marketCap e),
                             r_volume = map_option parseFloat (hp_volume e),
                             r_details = None\<rparr> in
               await (on_redis (\<lambda>c. ((), setCachedPrice token network timestamp result c))) (\<lambda>_.
               await (on_store (createPriceQuery storage
                        (audit token network timestamp (hp_price e) ''storage''))) (\<lambda>_.
               ret (Json (to_json result)))))
          | None \<Rightarrow>
              (case getTokenPrice alchemyService token network timestamp of
                 Some alchemyPrice \<Rightarrow>
                   (let result = \<lparr>r_price = tp_price alchemyPrice,
                                  r_source = ''alchemy'',
                                  r_marketCap = tp_marketCap alchemyPrice,
                                  r_volume = tp_volume alchemyPrice,
                                  r_details = None\<rparr> in
                    await (on_redis (\<lambda>c. ((), setCachedPrice token network timestamp result c))) (\<lambda>_.
                    await (on_store (createHistoricalPrice storage
                             \<lparr>ihp_tokenAddress = token,
                              ihp_network = network,
                              ihp_timestamp = timestamp,
                              ihp_price = toString (tp_price alchemyPrice),
                              ihp_marketCap = map_option toString (tp_marketCap alchemyPrice),
                              ihp_volume = map_option toString (tp_volume alchemyPrice)\<rparr>)) (\<lambda>_.
                    await (on_store (createPriceQuery storage
                             (audit token network timestamp (toString (tp_price alchemyPrice))
                                ''alchemy''))) (\<lambda>_.
                    ret (Json (to_json result))))))
               | None \<Rightarrow>
                   await (on_store (getNearestHistoricalPrices storage token network timestamp))
                     (\<lambda>nearest.
                   case nearest of
                     (Some before, Some after) \<Rightarrow>
                       if canInterpolate before after timestamp
                       then (let interpolated = interpolatePrice timestamp before after;
                                 result = \<lparr>r_price = ir_price interpolated,
                                           r_source = ''interpolated'',
                                           r_marketCap = None,
                                           r_volume = None,
                                           r_details = Some (ir_details interpolated)\<rparr> in
                             await (on_redis
                                      (\<lambda>c. ((), setCachedPrice token network timestamp result c)))
                               (\<lambda>_.
                             await (on_store (createPriceQuery storage
                                      (audit token network timestamp
                                         (toString (ir_price interpolated)) ''interpolated''))) (\<lambda>_.
                             ret (Json (to_json result)))))
                       else ret NotFound
                   | _ \<Rightarrow> ret NotFound)))))"

definition price_route :: "'s IStorage \<Rightarrow> Alchemy \<Rightarrow> PriceRequest \<Rightarrow> 's World \<Rightarrow> Response \<times> 's World" where
  \<comment> \<open>the route with its \<open>catch\<close> block: every exception becomes a 500 response\<close>
  "price_route storage alchemyService req w =
     (case price_route_body storage alchemyService req w of
        (Inr response, w') \<Rightarrow> (response, w')
      | (Inl e, w') \<Rightarrow> (InternalServerError (message e), w'))"

definition tier :: "Alchemy \<Rightarrow> PriceRequest \<Rightarrow> MemStorage World \<Rightarrow> string" where
  \<comment> \<open>the first tier of the price route that has an answer to a request\<close>
  "tier alchemy req w =
     (if fst (getCachedPrice (req_token req) (req_network req) (req_timestamp req) (redis w))
           \<noteq> None
        then ''cache''
      else if Map_get (price_key (req_token req) (req_network req) (req_timestamp req))
                (historicalPrices (store w)) \<noteq> None
        then ''storage''
      else if getTokenPrice alchemy (req_token req) (req_network req) (req_timestamp req) \<noteq> None
        then ''alchemy''
      else ''interpolated'')"

definition query_ids_below :: "MemStorage \<Rightarrow> bool" where
  \<comment> \<open>every id of the audit log is below the next id: so it is when the storage is
      created, and every call keeps it so\<close>
  "query_ids_below s = list_all (\<lambda>e. fst e < currentQueryId s) (priceQueries s)"

section \<open>The queue service\<close>

record BulkFetchJobData =
  jd_tokenAddress :: string
  jd_network :: string
  jd_jobId :: nat

text \<open>
  The BullMQ queue is outside the program: the jobs it holds, and whether it can be
  reached. \<open>this.queue\<close> is undefined when the constructor failed to make it.
\<close>

record BullQueue =
  waiting :: "BulkFetchJobData list"
  reachable :: bool

record 's QueueService =
  qs_store :: 's
  qs_queue :: "BullQueue option"

definition on_qstore :: "('a, 's) action \<Rightarrow> ('a, 's QueueService) action" where
  "on_qstore m = (\<lambda>w. case m (qs_store w) of (r, s') \<Rightarrow> (r, w\<lparr>qs_store := s'\<rparr>))"

definition queue_add :: "BulkFetchJobData \<Rightarrow> (unit, 's QueueService) action" where
  \<comment> \<open>\<open>if (this.queue) await this.queue.add(...)\<close>\<close>
  "queue_add d = (\<lambda>w.
     case qs_queue w of
       None \<Rightarrow> (Inr (), w)
     | Some q \<Rightarrow>
         if reachable q then (Inr (), w\<lparr>qs_queue := Some (q\<lparr>waiting := waiting q @ [d]\<rparr>)\<rparr>)
         else (Inl (Error ''connect ECONNREFUSED''), w))"

definition addBulkFetchJob ::
  "'s IStorage \<Rightarrow> string \<Rightarrow> string \<Rightarrow> (nat, 's QueueService) action" where
  "addBulkFetchJob storage tokenAddress network =
     await (on_qstore (createBulkFetchJob storage
              \<lparr>ibj_tokenAddress = tokenAddress,
               ibj_network = network,
               ibj_status = ''pending'',
               ibj_progress = Some (Fin 0),
               ibj_totalDays = None\<rparr>)) (\<lambda>job.
     await (try_catch
              (queue_add \<lparr>jd_tokenAddress = tokenAddress, jd_network = network,
                          jd_jobId = job_id job\<rparr>)
              (\<lambda>error. ret ())) (\<lambda>_.
     ret (job_id job)))"

text \<open>
  What the worker reads from outside while it runs a job: the clock, read once, and
  whether the queue accepts the progress report of the batch that starts at index \<open>i\<close>.
\<close>

record Worker =
  now :: int \<comment> \<open>\<open>Math.floor(Date.now() / 1000)\<close>\<close>
  progress_rejects :: "nat \<Rightarrow> bool"

function timestamps_from :: "int \<Rightarrow> int \<Rightarrow> int list \<Rightarrow> int list" where
  "timestamps_from ts t timestamps =
     (if ts \<le> t then timestamps_from (ts + 24 * 60 * 60) t (timestamps @ [ts])
      else timestamps)"
  by pat_completeness auto
termination
  by (relation "measure (\<lambda>(ts, t, timestamps). nat (t - ts + 1))") auto

declare timestamps_from.simps [simp del]

function store_from ::
  "'s IStorage \<Rightarrow> string \<Rightarrow> string \<Rightarrow> int list \<Rightarrow> TokenPrice option list \<Rightarrow> nat
     \<Rightarrow> (unit, 's) action" where
  "store_from storage tokenAddress network batch prices j =
     (if j < length prices
      then (case prices ! j of
              Some price \<Rightarrow>
                await (createHistoricalPrice storage
                         \<lparr>ihp_tokenAddress = tokenAddress,
                          ihp_network = network,
                          ihp_timestamp = batch ! j,
                          ihp_price = toString (tp_price price),
                          ihp_marketCap = map_option toString (tp_marketCap price),
                          ihp_volume = map_option toString (tp_volume price)\<rparr>) (\<lambda>_.
                store_from storage tokenAddress network batch prices (j + 1))
            | None \<Rightarrow> store_from storage tokenAddress network batch prices (j + 1))
      else ret ())"
  by pat_completeness auto
termination
  by (relation "measure (\<lambda>(storage, tokenAddress, network, batch, prices, j).
        length prices - j)") auto

declare store_from.simps [simp del]

definition batchSize :: nat where
  "batchSize = 10"

definition job_updateProgress :: "Worker \<Rightarrow> nat \<Rightarrow> jsnum \<Rightarrow> (unit, 's) action" where
  \<comment> \<open>\<open>job.updateProgress(progress)\<close> of the batch that starts at index \<open>i\<close>\<close>
  "job_updateProgress worker i progress =
     (if progress_rejects worker i then throw (Error ''Connection is closed.'') else ret ())"

function batches_from ::
  "'s IStorage \<Rightarrow> Alchemy \<Rightarrow> Worker \<Rightarrow> BulkFetchJobData \<Rightarrow> int list \<Rightarrow> nat
     \<Rightarrow> (unit, 's) action" where
  "batches_from storage alchemyService worker d timestamps i =
     (if i < length timestamps
      then (let batch = slice timestamps i (i + batchSize);
                prices = batchGetHistoricalPrices alchemyService
                           (jd_tokenAddress d) (jd_network d) batch in
            await (store_from storage (jd_tokenAddress d) (jd_network d) batch prices 0) (\<lambda>_.
            let progress = jfloor (jmul (jdiv (num (int (i + batchSize)))
                                              (num (int (length timestamps)))) (Fin 100)) in
            await (updateBulkFetchJob storage (jd_jobId d)
                     (no_update\<lparr>up_progress := Some progress\<rparr>)) (\<lambda>_.
            await (job_updateProgress worker i progress) (\<lambda>_.
            batches_from storage alchemyService worker d timestamps (i + batchSize)))))
      else ret ())"
  by pat_completeness auto
termination
  by (relation "measure (\<lambda>(storage, alchemyService, worker, d, timestamps, i).
        length timestamps - i)") (auto simp add: batchSize_def)

declare batches_from.simps [simp del]

definition processJob ::
  "'s IStorage \<Rightarrow> Alchemy \<Rightarrow> Worker \<Rightarrow> BulkFetchJobData \<Rightarrow> (unit, 's) action" where
  "processJob storage alchemyService worker d =
     try_catch
       (await (updateBulkFetchJob storage (jd_jobId d)
                 (no_update\<lparr>up_status := Some ''processing''\<rparr>)) (\<lambda>_.
        case getTokenCreationDate alchemyService (jd_tokenAddress d) (jd_network d) of
          None \<Rightarrow> throw (Error ''Could not determine token creation date'')
        | Some creationTimestamp \<Rightarrow>
            if creationTimestamp = 0
            then throw (Error ''Could not determine token creation date'')
            else (let timestamps = timestamps_from creationTimestamp (now worker) [] in
                  await (updateBulkFetchJob storage (jd_jobId d)
                           (no_update\<lparr>up_totalDays := Some (num (int (length timestamps)))\<rparr>)) (\<lambda>_.
                  await (batches_from storage alchemyService worker d timestamps 0) (\<lambda>_.
                  updateBulkFetchJob storage (jd_jobId d)
                    (no_update\<lparr>up_status := Some ''completed'', up_progress := Some (Fin 100)\<rparr>))))))
       (\<lambda>error.
          await (updateBulkFetchJob storage (jd_jobId d)
                   (no_update\<lparr>up_status := Some ''failed''\<rparr>)) (\<lambda>_.
          throw error))"

section \<open>Observing a run\<close>

text \<open>
  To speak of every point of a run, and not only of its end, a storage is wrapped so that
  it keeps, beside its state, the list of the states it went through: one after each call,
  in order. The wrapped storage answers every call as the storage it wraps.
\<close>

definition logged :: "('a, 's) action \<Rightarrow> ('a, 's \<times> 's list) action" where
  "logged m = (\<lambda>(s, h). case m s of (r, s') \<Rightarrow> (r, (s', h @ [s'])))"

definition traced :: "'s IStorage \<Rightarrow> ('s \<times> 's list) IStorage" where
  "traced storage =
     \<lparr>createPriceQuery = (\<lambda>q. logged (createPriceQuery storage q)),
      createHistoricalPrice = (\<lambda>p. logged (createHistoricalPrice storage p)),
      getHistoricalPrice = (\<lambda>a n t. logged (getHistoricalPrice storage a n t)),
      getNearestHistoricalPrices = (\<lambda>a n t. logged (getNearestHistoricalPrices storage a n t)),
      createBulkFetchJob = (\<lambda>j. logged (createBulkFetchJob storage j)),
      getActiveBulkFetchJobs = logged (getActiveBulkFetchJobs storage),
      updateBulkFetchJob = (\<lambda>i u. logged (updateBulkFetchJob storage i u))\<rparr>"

text \<open>
  A run on the wrapped storage follows the run on the storage it wraps when, from every
  state and whatever the list so far, it returns or throws the same and leaves the wrapped
  storage in the same state.
\<close>

definition follows :: "('a, 's \<times> 's list) action \<Rightarrow> ('a, 's) action \<Rightarrow> bool" where
  "follows m' m = (\<forall>s h. fst (m' (s, h)) = fst (m s) \<and> fst (snd (m' (s, h))) = snd (m s))"

definition status_at :: "nat \<Rightarrow> MemStorage \<Rightarrow> string option" where
  \<comment> \<open>the status of a job in a state of the in-memory storage\<close>
  "status_at jobId s = map_option job_status (Map_get jobId (bulkFetchJobs s))"

definition progress_at :: "nat \<Rightarrow> MemStorage \<Rightarrow> jsnum option option" where
  \<comment> \<open>the progress of a job in a state of the in-memory storage\<close>
  "progress_at jobId s = map_option job_progress (Map_get jobId (bulkFetchJobs s))"

definition processing_so_far :: "nat \<Rightarrow> MemStorage \<times> MemStorage list \<Rightarrow> bool" where
  \<comment> \<open>the job has been processing in every state of the run so far\<close>
  "processing_so_far jobId st =
     (snd st \<noteq> [] \<and> last (snd st) = fst st \<and>
      list_all (\<lambda>x. status_at jobId x = Some ''processing'') (snd st))"

definition mark :: "string \<Rightarrow> BulkFetchJobUpdate" where
  \<comment> \<open>the update \<open>{ status: v }\<close>\<close>
  "mark v = no_update\<lparr>up_status := Some v\<rparr>"

section \<open>Sample inputs\<close>

definition point :: "int \<Rightarrow> jsnum \<Rightarrow> HistoricalPrice" where
  "point t p = \<lparr>hp_id = 1, hp_tokenAddress = ''0xabc'', hp_network = ''ethereum'',
     hp_timestamp = t, hp_price = p, hp_marketCap = None, hp_volume = None, hp_createdAt = 0\<rparr>"

definition quote :: "jsnum \<Rightarrow> InsertHistoricalPrice" where
  "quote p = \<lparr>ihp_tokenAddress = ''0xabc'', ihp_network = ''ethereum'',
     ihp_timestamp = 1700000000, ihp_price = p, ihp_marketCap = None, ihp_volume = None\<rparr>"

definition not_found_provider :: Alchemy where
  \<comment> \<open>a provider that answers 404 to every price request and knows no transfer\<close>
  "not_found_provider = \<lparr>historical_prices = (\<lambda>a n t k. \<lparr>status = 404, body = None\<rparr>),
     asset_transfers = (\<lambda>a n k. NoTransfers)\<rparr>"

definition idle_service :: "MemStorage QueueService" where
  "idle_service = \<lparr>qs_store = MemStorage_new 0, qs_queue = None\<rparr>"

definition sample_request :: PriceRequest where
  "sample_request =
     \<lparr>req_token = ''0xabc'', req_network = ''ethereum'', req_timestamp = 1700000000\<rparr>"

definition priced_provider :: Alchemy where
  \<comment> \<open>a provider that answers every price request with the price 2\<close>
  "priced_provider = \<lparr>historical_prices = (\<lambda>a n t k. \<lparr>status = 200,
        body = Some \<lparr>tp_price = Fin 2, tp_timestamp = t, tp_marketCap = None,
                     tp_volume = None\<rparr>\<rparr>),
     asset_transfers = (\<lambda>a n k. FirstBlock 1700000000)\<rparr>"

definition stale_provider :: Alchemy where
  \<comment> \<open>a provider that knows when the token was created and has no price of it\<close>
  "stale_provider = \<lparr>historical_prices = (\<lambda>a n t k. \<lparr>status = 404, body = None\<rparr>),
     asset_transfers = (\<lambda>a n k. FirstBlock 1700000000)\<rparr>"

definition empty_world :: "MemStorage World" where
  "empty_world = \<lparr>redis = \<lparr>entries = Map.empty, outages = []\<rparr>, store = MemStorage_new 0\<rparr>"

definition cached_world :: "MemStorage World" where
  "cached_world = \<lparr>redis = \<lparr>entries = [cache_key ''0xabc'' ''ethereum'' 1700000000 \<mapsto>
        (300, \<lparr>j_price = Some (Fin 2), j_source = ''alchemy'', j_marketCap = None,
               j_volume = None, j_details = None\<rparr>)], outages = []\<rparr>,
     store = MemStorage_new 0\<rparr>"

definition cache_down_world :: "MemStorage World" where
  \<comment> \<open>the next two calls of the Redis client reject\<close>
  "cache_down_world = \<lparr>redis = \<lparr>entries = Map.empty, outages = [True, True]\<rparr>,
     store = MemStorage_new 0\<rparr>"

definition unreachable_storage :: "unit IStorage" where
  \<comment> \<open>a storage whose every call rejects\<close>
  "unreachable_storage =
     \<lparr>createPriceQuery = (\<lambda>q. throw (Error ''connect ECONNREFUSED'')),
      createHistoricalPrice = (\<lambda>p. throw (Error ''connect ECONNREFUSED'')),
      getHistoricalPrice = (\<lambda>a n t. throw (Error ''connect ECONNREFUSED'')),
      getNearestHistoricalPrices = (\<lambda>a n t. throw (Error ''connect ECONNREFUSED'')),
      createBulkFetchJob = (\<lambda>j. throw (Error ''connect ECONNREFUSED'')),
      getActiveBulkFetchJobs = throw (Error ''connect ECONNREFUSED''),
      updateBulkFetchJob = (\<lambda>i u. throw (Error ''connect ECONNREFUSED''))\<rparr>"

definition unreachable_world :: "unit World" where
  "unreachable_world = \<lparr>redis = \<lparr>entries = Map.empty, outages = []\<rparr>, store = ()\<rparr>"

definition read_only_storage :: "MemStorage IStorage" where
  \<comment> \<open>the in-memory storage, except that nothing can be written to the price points
      and to the audit log\<close>
  "read_only_storage =
     MemStorage_ops\<lparr>createHistoricalPrice := (\<lambda>p. throw (Error ''read-only transaction'')),
                    createPriceQuery := (\<lambda>q. throw (Error ''read-only transaction''))\<rparr>"

definition quote_at :: "int \<Rightarrow> jsnum \<Rightarrow> InsertHistoricalPrice" where
  "quote_at t p = \<lparr>ihp_tokenAddress = ''0xabc'', ihp_network = ''ethereum'',
     ihp_timestamp = t, ihp_price = p, ihp_marketCap = None, ihp_volume = None\<rparr>"

definition bracketed_world :: "MemStorage World" where
  \<comment> \<open>nothing is cached; the storage was given the price 8 an hour before the timestamp
      of the sample request and the price 10 an hour after it\<close>
  "bracketed_world = \<lparr>redis = \<lparr>entries = Map.empty, outages = []\<rparr>,
     store = snd (Mem_createHistoricalPrice (quote_at 1700003600 (Fin 10))
               (snd (Mem_createHistoricalPrice (quote_at 1699996400 (Fin 8))
                  (MemStorage_new 0))))\<rparr>"

definition sixteen_day_worker :: Worker where
  \<comment> \<open>a worker that starts 15 days after 1700000000\<close>
  "sixteen_day_worker = \<lparr>now = 1701296000, progress_rejects = (\<lambda>i. False)\<rparr>"

definition first_job :: BulkFetchJobData where
  "first_job = \<lparr>jd_tokenAddress = ''0xabc'', jd_network = ''ethereum'', jd_jobId = 1\<rparr>"

definition scheduled :: MemStorage where
  \<comment> \<open>the storage after the first job was scheduled\<close>
  "scheduled = qs_store (snd (addBulkFetchJob MemStorage_ops ''0xabc'' ''ethereum'' idle_service))"

definition sixteen :: "int list" where
  "sixteen = [1700000000, 1700086400, 1700172800, 1700259200, 1700345600, 1700432000,
      1700518400, 1700604800, 1700691200, 1700777600, 1700864000, 1700950400, 1701036800,
      1701123200, 1701209600, 1701296000]"

definition report :: "jsnum \<Rightarrow> MemStorage \<Rightarrow> MemStorage" where
  \<comment> \<open>the storage after the update \<open>{ progress: p }\<close> of job 1\<close>
  "report p s = snd (Mem_updateBulkFetchJob 1 (no_update\<lparr>up_progress := Some p\<rparr>) s)"

definition finished :: MemStorage where
  \<comment> \<open>the storage after the worker has run the first job to its end: 16 days, and a
      provider that knows when the token was created and has no price of it\<close>
  "finished = fst (snd (processJob (traced MemStorage_ops) stale_provider sixteen_day_worker
     first_job (scheduled, [])))"

section \<open>Facts about maps and numbers\<close>

lemma map_of_Map_set: "map_of (Map_set k v m) = (map_of m)(k \<mapsto> v)"
  by (induction m) (auto simp add: fun_eq_iff)

lemma Map_get_Map_set: "Map_get k' (Map_set k v m) = (if k' = k then Some v else Map_get k' m)"
  by (simp add: Map_get_def map_of_Map_set)

lemma keys_Map_set:
  "map fst (Map_set k v m) = (if k \<in> fst ` set m then map fst m else map fst m @ [k])"
  by (induction m) (force+)

lemma Map_set_fresh: "k \<notin> fst ` set m \<Longrightarrow> Map_set k v m = m @ [(k, v)]"
  by (induction m) auto

lemma set_Map_set: "(k, v) \<in> set (Map_set k v m)"
  by (induction m) auto

lemma rnd_0: "rnd 0 = Fin 0"
  by (simp add: rnd_def)

lemma rnd_not_NaN: "rnd q \<noteq> NaN"
  by (simp add: rnd_def Let_def inf_of_sign_def zero_of_sign_def)

lemma jadd_Fin [simp]: "jadd (Fin a) (Fin b) = (if a + b = 0 then Fin 0 else rnd (a + b))"
  by (simp add: jadd_def)

lemma jmul_Fin [simp]:
  "jmul (Fin a) (Fin b) =
     (if a = 0 \<or> b = 0 then zero_of_sign ((0 \<le> a) = (0 \<le> b)) else rnd (a * b))"
  by (simp add: jmul_def)

lemma jdiv_Fin [simp]:
  "jdiv (Fin a) (Fin b) =
     (if b = 0 then (if a = 0 then NaN else inf_of_sign (0 \<le> a))
      else if a = 0 then zero_of_sign (0 \<le> b) else rnd (a / b))"
  by (simp add: jdiv_def)

lemma jgt_Fin [simp]: "jgt (Fin a) (Fin b) = (b < a)"
  by (simp add: jgt_def)

lemma rnd_tenth: "rnd (1 / 10) = Fin (3602879701896397 / 36028797018963968)"
  \<comment> \<open>the number that the literal \<open>0.1\<close> denotes\<close>
  by code_simp

lemma rnd_half: "rnd (1 / 2) = Fin (1 / 2)"
  by code_simp

lemma rnd_1: "rnd 1 = Fin 1"
  by code_simp

lemma rnd_5: "rnd 5 = Fin 5"
  by code_simp

lemma rnd_10: "rnd 10 = Fin 10"
  by code_simp


section \<open>Properties of the interpolation service\<close>



lemma swing_of_negative_zero:
  "\<not> jgt (jdiv (jabs (jsub a NegZero)) NegZero) (Fin (1 / 2))"
proof (cases a)
  case (Fin q)
  then show ?thesis
    by (cases "rnd q")
      (auto simp add: jsub_def jadd_def jdiv_def jgt_def inf_of_sign_def rnd_not_NaN)
qed (simp_all add: jsub_def jadd_def jdiv_def jgt_def inf_of_sign_def)

text \<open>
  C5. \<open>canInterpolate\<close> returns false when the target is not strictly between the two
  timestamps, when the two timestamps are more than 604800 seconds apart, when the swing
  \<open>|after.price - before.price| / before.price\<close>, in the arithmetic of numbers, is above
  0.5, and when \<open>before.price\<close> is positive zero while \<open>after.price\<close> is a number other
  than zero or is infinite (the swing is Infinity). When \<open>before.price\<close> is positive zero
  and \<open>after.price\<close> is a zero the swing is NaN; when \<open>before.price\<close> is negative zero
  the swing is NaN or -Infinity, whatever \<open>after.price\<close> is. No comparison with NaN holds
  and -Infinity is not above 0.5, so in these two cases the answer depends on the
  timestamps alone.
\<close>

theorem canInterpolate_rejects:
  "(target \<le> hp_timestamp b \<or> hp_timestamp a \<le> target \<longrightarrow> \<not> canInterpolate b a target) \<and>
   (604800 < hp_timestamp a - hp_timestamp b \<longrightarrow> \<not> canInterpolate b a target) \<and>
   (jgt (jdiv (jabs (jsub (parseFloat (hp_price a)) (parseFloat (hp_price b))))
          (parseFloat (hp_price b))) (Fin (1 / 2))
      \<longrightarrow> \<not> canInterpolate b a target) \<and>
   (parseFloat (hp_price b) = Fin 0 \<and>
      (parseFloat (hp_price a) = PosInf \<or> parseFloat (hp_price a) = NegInf \<or>
       (\<exists>q. parseFloat (hp_price a) = Fin q \<and> q \<noteq> 0 \<and> is_double q))
      \<longrightarrow> \<not> canInterpolate b a target) \<and>
   (parseFloat (hp_price b) = Fin 0 \<and> is_zero (parseFloat (hp_price a))
      \<longrightarrow> canInterpolate b a target =
            (hp_timestamp b < target \<and> target < hp_timestamp a \<and>
             hp_timestamp a - hp_timestamp b \<le> 604800)) \<and>
   (parseFloat (hp_price b) = NegZero
      \<longrightarrow> canInterpolate b a target =
            (hp_timestamp b < target \<and> target < hp_timestamp a \<and>
             hp_timestamp a - hp_timestamp b \<le> 604800))"
proof (intro conjI impI)
  assume "target \<le> hp_timestamp b \<or> hp_timestamp a \<le> target"
  then show "\<not> canInterpolate b a target"
    by (simp add: canInterpolate_def)
next
  assume "604800 < hp_timestamp a - hp_timestamp b"
  then show "\<not> canInterpolate b a target"
    by (simp add: canInterpolate_def Let_def)
next
  assume "jgt (jdiv (jabs (jsub (parseFloat (hp_price a)) (parseFloat (hp_price b))))
            (parseFloat (hp_price b))) (Fin (1 / 2))"
  then show "\<not> canInterpolate b a target"
    by (simp add: canInterpolate_def Let_def)
next
  assume "parseFloat (hp_price b) = Fin 0 \<and>
      (parseFloat (hp_price a) = PosInf \<or> parseFloat (hp_price a) = NegInf \<or>
       (\<exists>q. parseFloat (hp_price a) = Fin q \<and> q \<noteq> 0 \<and> is_double q))"
  then have "jgt (jdiv (jabs (jsub (parseFloat (hp_price a)) (parseFloat (hp_price b))))
            (parseFloat (hp_price b))) (Fin (1 / 2))"
    by (auto simp add: jsub_def jadd_def jdiv_def jgt_def is_double_def inf_of_sign_def)
  then show "\<not> canInterpolate b a target"
    by (simp add: canInterpolate_def Let_def)
next
  assume "parseFloat (hp_price b) = Fin 0 \<and> is_zero (parseFloat (hp_price a))"
  then have "\<not> jgt (jdiv (jabs (jsub (parseFloat (hp_price a)) (parseFloat (hp_price b))))
            (parseFloat (hp_price b))) (Fin (1 / 2))"
    by (cases "parseFloat (hp_price a)") (auto simp add: jsub_def jadd_def jdiv_def jgt_def)
  then show "canInterpolate b a target =
            (hp_timestamp b < target \<and> target < hp_timestamp a \<and>
             hp_timestamp a - hp_timestamp b \<le> 604800)"
    by (auto simp add: canInterpolate_def Let_def)
next
  assume "parseFloat (hp_price b) = NegZero"
  then have "\<not> jgt (jdiv (jabs (jsub (parseFloat (hp_price a)) (parseFloat (hp_price b))))
            (parseFloat (hp_price b))) (Fin (1 / 2))"
    by (simp add: swing_of_negative_zero)
  then show "canInterpolate b a target =
            (hp_timestamp b < target \<and> target < hp_timestamp a \<and>
             hp_timestamp a - hp_timestamp b \<le> 604800)"
    by (auto simp add: canInterpolate_def Let_def)
qed

theorem canInterpolate_zero_prices_counterexample:
  "is_zero (parseFloat (hp_price (point 1000 (Fin 0)))) \<and>
   canInterpolate (point 1000 (Fin 0)) (point 2000 (Fin 0)) 1500 \<and>
   is_zero (parseFloat (hp_price (point 1000 NegZero))) \<and>
   canInterpolate (point 1000 NegZero) (point 2000 (Fin 5)) 1500"
  by (simp add: canInterpolate_def point_def parseFloat_def jsub_def jadd_def jdiv_def jgt_def
        inf_of_sign_def rnd_5)

theorem canInterpolate_rejects_witness:
  "\<not> canInterpolate (point 1000 (Fin 10)) (point 2000 (Fin 12)) 1000 \<and>
   \<not> canInterpolate (point 1000 (Fin 10)) (point 700000 (Fin 12)) 1500 \<and>
   \<not> canInterpolate (point 1000 (Fin 10)) (point 2000 (Fin 20)) 1500 \<and>
   \<not> canInterpolate (point 1000 (Fin 0)) (point 2000 (Fin 5)) 1500 \<and>
   canInterpolate (point 1000 (Fin 0)) (point 2000 NegZero) 1200 \<and>
   canInterpolate (point 1000 NegZero) (point 2000 (Fin 5)) 1200"
  using canInterpolate_rejects [of 1000 "point 1000 (Fin 10)" "point 2000 (Fin 12)"]
    canInterpolate_rejects [of 1500 "point 1000 (Fin 10)" "point 700000 (Fin 12)"]
    canInterpolate_rejects [of 1500 "point 1000 (Fin 10)" "point 2000 (Fin 20)"]
    canInterpolate_rejects [of 1500 "point 1000 (Fin 0)" "point 2000 (Fin 5)"]
    canInterpolate_rejects [of 1200 "point 1000 (Fin 0)" "point 2000 NegZero"]
    canInterpolate_rejects [of 1200 "point 1000 NegZero" "point 2000 (Fin 5)"]
  by (simp add: point_def parseFloat_def jsub_def is_double_def rnd_1 rnd_5 rnd_10)

section \<open>Properties of the in-memory storage\<close>

text \<open>
  C4. \<open>createHistoricalPrice\<close> stores its record under the identity key whatever the
  map holds there: after the call, the lookup of that key yields the new record, with the
  price, market cap and volume of the call. The map keeps one entry per key: a key that
  was present keeps its place, a new key is appended. A second call with the same key
  therefore replaces the record of the first.
\<close>

theorem createHistoricalPrice_replaces:
  "case Mem_createHistoricalPrice p s of
     (r, s') \<Rightarrow>
       (\<exists>h. r = Inr h \<and>
            Map_get (price_key (ihp_tokenAddress p) (ihp_network p) (ihp_timestamp p))
              (historicalPrices s') = Some h \<and>
            hp_price h = ihp_price p \<and> hp_marketCap h = ihp_marketCap p \<and>
            hp_volume h = ihp_volume p) \<and>
       map fst (historicalPrices s') =
         (if price_key (ihp_tokenAddress p) (ihp_network p) (ihp_timestamp p)
               \<in> fst ` set (historicalPrices s)
          then map fst (historicalPrices s)
          else map fst (historicalPrices s) @
                 [price_key (ihp_tokenAddress p) (ihp_network p) (ihp_timestamp p)])"
  by (simp add: Mem_createHistoricalPrice_def Let_def Map_get_Map_set keys_Map_set or_null_str_def)

theorem createHistoricalPrice_overwrites_counterexample:
  "map_option hp_price (Map_get (price_key ''0xabc'' ''ethereum'' 1700000000)
     (historicalPrices (snd (Mem_createHistoricalPrice (quote (Fin 1)) (MemStorage_new 0)))))
     = Some (Fin 1) \<and>
   map_option hp_price (Map_get (price_key ''0xabc'' ''ethereum'' 1700000000)
     (historicalPrices (snd (Mem_createHistoricalPrice (quote (Fin 2))
        (snd (Mem_createHistoricalPrice (quote (Fin 1)) (MemStorage_new 0)))))))
     = Some (Fin 2)"
  by (simp add: Mem_createHistoricalPrice_def Let_def Map_get_def quote_def MemStorage_new_def)

theorem createHistoricalPrice_replaces_witness:
  "hp_price (the (Map_get (price_key ''0xabc'' ''ethereum'' 1700000000)
     (historicalPrices (snd (Mem_createHistoricalPrice (quote (Fin 2))
        (snd (Mem_createHistoricalPrice (quote (Fin 1)) (MemStorage_new 0)))))))) = Fin 2"
  using createHistoricalPrice_replaces
          [where p = "quote (Fin 2)"
             and s = "snd (Mem_createHistoricalPrice (quote (Fin 1)) (MemStorage_new 0))"]
  by (auto simp add: quote_def split: prod.splits)

text \<open>
  C10. \<open>addBulkFetchJob\<close> asks for progress 0, and \<open>createBulkFetchJob\<close> stores
  \<open>job.progress || null\<close>: the job it returns the id of is stored with status pending,
  progress null and totalDays null, and is among the active jobs.
\<close>

theorem addBulkFetchJob_stores_null_progress:
  "case addBulkFetchJob MemStorage_ops tokenAddress network w of
     (r, w') \<Rightarrow>
       r = Inr (currentJobId (qs_store w)) \<and>
       (\<exists>job. Map_get (currentJobId (qs_store w)) (bulkFetchJobs (qs_store w')) = Some job \<and>
              job_status job = ''pending'' \<and>
              job_progress job = None \<and>
              job_totalDays job = None \<and>
              (\<exists>jobs s. Mem_getActiveBulkFetchJobs (qs_store w') = (Inr jobs, s) \<and>
                        job \<in> set jobs))"
  apply (simp add: addBulkFetchJob_def await_def try_catch_def ret_def on_qstore_def queue_add_def
          MemStorage_ops_def Mem_createBulkFetchJob_def Let_def or_null_num_def falsy_num_def
          Map_get_Map_set Mem_getActiveBulkFetchJobs_def Map_values_def
          split: option.split prod.split sum.split)
  apply (auto simp add: Map_get_Map_set image_iff intro!: bexI[OF _ set_Map_set])
  done

theorem addBulkFetchJob_stores_null_progress_witness:
  "fst (addBulkFetchJob MemStorage_ops ''0xabc'' ''ethereum'' idle_service) = Inr 1 \<and>
   map_option job_progress
     (Map_get 1 (bulkFetchJobs (qs_store
        (snd (addBulkFetchJob MemStorage_ops ''0xabc'' ''ethereum'' idle_service))))) = Some None"
  using addBulkFetchJob_stores_null_progress
          [where tokenAddress = "''0xabc''" and network = "''ethereum''" and w = idle_service]
  by (auto simp add: idle_service_def MemStorage_new_def split: prod.splits)

section \<open>The retry policy of the provider calls\<close>

lemma pRetry_from_Cons:
  "pRetry_from input n (t # ts) =
     (if isl (input n)
      then (fst (pRetry_from input (Suc n) ts), t # snd (pRetry_from input (Suc n) ts))
      else (input n, []))"
  by (cases "input n") (simp_all add: case_prod_unfold Let_def)

lemma pRetry_from_take:
  "take (length (snd (pRetry_from input n ts))) ts = snd (pRetry_from input n ts)"
  by (induction ts arbitrary: n) (simp_all add: pRetry_from_Cons del: pRetry_from.simps(2))

lemma pRetry_from_length: "length (snd (pRetry_from input n ts)) \<le> length ts"
  by (induction ts arbitrary: n) (simp_all add: pRetry_from_Cons del: pRetry_from.simps(2))

lemma pRetry_from_result:
  "fst (pRetry_from input n ts) = input (n + length (snd (pRetry_from input n ts)))"
  by (induction ts arbitrary: n) (simp_all add: pRetry_from_Cons del: pRetry_from.simps(2))

lemma pRetry_from_exhausted:
  "isl (fst (pRetry_from input n ts)) \<Longrightarrow> length (snd (pRetry_from input n ts)) = length ts"
  by (induction ts arbitrary: n)
     (simp_all add: pRetry_from_Cons del: pRetry_from.simps(2) split: if_splits)

lemma pRetry_from_failed:
  "k < length (snd (pRetry_from input n ts)) \<Longrightarrow> isl (input (n + k))"
proof (induction ts arbitrary: n k)
  case Nil
  then show ?case by simp
next
  case (Cons t ts)
  show ?case
  proof (cases k)
    case 0
    with Cons.prems show ?thesis
      by (simp add: pRetry_from_Cons del: pRetry_from.simps(2) split: if_splits)
  next
    case (Suc j)
    with Cons.prems have "isl (input n)" "j < length (snd (pRetry_from input (Suc n) ts))"
      by (simp_all add: pRetry_from_Cons del: pRetry_from.simps(2) split: if_splits)
    from Cons.IH [OF this(2)] Suc show ?thesis by simp
  qed
qed

lemma timeouts_price:
  "timeouts \<lparr>retries = 3, factor = 2, minTimeout = 1000, maxTimeout = 5000\<rparr> =
     [1000, 2000, 4000]"
  by (simp add: timeouts_def createTimeout_def numeral_3_eq_3)

lemma batchGet_from_map:
  "batchGet_from alchemy tokenAddress network timestamps i results =
     results @ map (getTokenPrice alchemy tokenAddress network) (drop i timestamps)"
proof (induction "length timestamps - i" arbitrary: i results rule: less_induct)
  case less
  show ?case
  proof (cases "i < length timestamps")
    case False
    then show ?thesis
      by (subst batchGet_from.simps) simp
  next
    case True
    have d: "drop (i + 10) timestamps = drop 10 (drop i timestamps)"
      by (simp add: add.commute)
    have glue: "map (getTokenPrice alchemy tokenAddress network) (take 10 (drop i timestamps)) @
        map (getTokenPrice alchemy tokenAddress network) (drop 10 (drop i timestamps)) =
        map (getTokenPrice alchemy tokenAddress network) (drop i timestamps)"
      by (simp only: map_append [symmetric] append_take_drop_id)
    have "length timestamps - (i + 10) < length timestamps - i" using True by simp
    from less.hyps [OF this]
    have "batchGet_from alchemy tokenAddress network timestamps (i + 10)
            (results @ map (getTokenPrice alchemy tokenAddress network)
               (take 10 (drop i timestamps))) =
          (results @ map (getTokenPrice alchemy tokenAddress network)
               (take 10 (drop i timestamps))) @
          map (getTokenPrice alchemy tokenAddress network) (drop (i + 10) timestamps)" .
    also have "\<dots> = results @ map (getTokenPrice alchemy tokenAddress network) (drop i timestamps)"
      unfolding d append_assoc glue ..
    finally have step: "batchGet_from alchemy tokenAddress network timestamps (i + 10)
            (results @ map (getTokenPrice alchemy tokenAddress network)
               (take 10 (drop i timestamps))) =
          results @ map (getTokenPrice alchemy tokenAddress network) (drop i timestamps)" .
    show ?thesis
      apply (subst batchGet_from.simps)
      apply (simp only: True if_True Let_def slice_def add_diff_cancel_left')
      apply (rule step)
      done
  qed
qed

lemma batchGetHistoricalPrices_map:
  "batchGetHistoricalPrices alchemy tokenAddress network timestamps =
     map (getTokenPrice alchemy tokenAddress network) timestamps"
  by (simp add: batchGetHistoricalPrices_def batchGet_from_map)

lemma pRetry_policy:
  "case pRetry input \<lparr>retries = 3, factor = 2, minTimeout = 1000, maxTimeout = 5000\<rparr> of
     (r, waits) \<Rightarrow>
       length waits + 1 \<le> 4 \<and>
       take (length waits) [1000, 2000, 4000] = waits \<and>
       (\<forall>t \<in> set waits. t \<le> 5000) \<and>
       (\<forall>k < length waits. isl (input (1 + k))) \<and>
       r = input (1 + length waits) \<and>
       (isl r \<longrightarrow> length waits = 3)"
proof -
  define run where "run = pRetry_from input 1 [1000, 2000, 4000]"
  have run: "pRetry input \<lparr>retries = 3, factor = 2, minTimeout = 1000, maxTimeout = 5000\<rparr>
      = run"
    by (simp add: pRetry_def timeouts_price run_def)
  have a: "length (snd run) \<le> 3"
    using pRetry_from_length [of input 1 "[1000, 2000, 4000]"] by (simp add: run_def)
  have b: "take (length (snd run)) [1000, 2000, 4000] = snd run"
    unfolding run_def by (rule pRetry_from_take)
  have "set (snd run) \<subseteq> {1000, 2000, 4000}"
    using set_take_subset [of "length (snd run)" "[1000, 2000, 4000::nat]"]
    unfolding b by simp
  then have c: "\<forall>t \<in> set (snd run). t \<le> 5000" by auto
  have d: "\<forall>k < length (snd run). isl (input (1 + k))"
    unfolding run_def using pRetry_from_failed [of _ input 1 "[1000, 2000, 4000]"] by blast
  have e: "fst run = input (1 + length (snd run))"
    unfolding run_def by (rule pRetry_from_result)
  have f: "isl (fst run) \<longrightarrow> length (snd run) = 3"
    using pRetry_from_exhausted [of input 1 "[1000, 2000, 4000]"] by (simp add: run_def)
  show ?thesis
    unfolding run case_prod_unfold
    using a b c d e f by simp
qed

text \<open>
  C2. Each of the two provider calls, \<open>getTokenPrice\<close> and \<open>getTokenCreationDate\<close>,
  makes at most 4 attempts: the first one and 3 retries. The waits between them are 1000,
  2000 and 4000 ms, each at most 5000 ms. Every attempt before the last one failed, the
  outcome is that of the last attempt, and a failed outcome comes only after all 4
  attempts. An attempt of \<open>getTokenPrice\<close> fails on every response that is not OK, so
  that a failure is retried whatever the status of the response, 404 as well as 429 or
  500. Both calls return null on a failed outcome and never throw.
  \<open>batchGetHistoricalPrices\<close> is \<open>getTokenPrice\<close> on each timestamp, in order.
\<close>

theorem provider_retry_policy:
  "(case getTokenPrice_run alchemy tokenAddress network timestamp of
     (r, waits) \<Rightarrow>
       length waits + 1 \<le> 4 \<and>
       take (length waits) [1000, 2000, 4000] = waits \<and>
       (\<forall>t \<in> set waits. t \<le> 5000) \<and>
       (\<forall>k < length waits.
          isl (price_attempt (historical_prices alchemy tokenAddress network timestamp (1 + k)))) \<and>
       r = price_attempt
             (historical_prices alchemy tokenAddress network timestamp (1 + length waits)) \<and>
       (isl r \<longrightarrow> length waits = 3) \<and>
       getTokenPrice alchemy tokenAddress network timestamp =
         (case r of Inl e \<Rightarrow> None | Inr v \<Rightarrow> Some v)) \<and>
   (case getTokenCreationDate_run alchemy tokenAddress network of
     (r, waits) \<Rightarrow>
       length waits + 1 \<le> 4 \<and>
       take (length waits) [1000, 2000, 4000] = waits \<and>
       (\<forall>t \<in> set waits. t \<le> 5000) \<and>
       (\<forall>k < length waits.
          isl (creation_attempt (asset_transfers alchemy tokenAddress network (1 + k)))) \<and>
       r = creation_attempt (asset_transfers alchemy tokenAddress network (1 + length waits)) \<and>
       (isl r \<longrightarrow> length waits = 3) \<and>
       getTokenCreationDate alchemy tokenAddress network =
         (case r of Inl e \<Rightarrow> None | Inr v \<Rightarrow> Some v)) \<and>
   (\<not> response_ok response \<longrightarrow> isl (price_attempt response)) \<and>
   batchGetHistoricalPrices alchemy tokenAddress network timestamps =
     map (getTokenPrice alchemy tokenAddress network) timestamps"
proof (intro conjI)
  obtain r waits where
    run: "getTokenPrice_run alchemy tokenAddress network timestamp = (r, waits)"
    by (cases "getTokenPrice_run alchemy tokenAddress network timestamp")
  have policy: "length waits + 1 \<le> 4 \<and>
       take (length waits) [1000, 2000, 4000] = waits \<and>
       (\<forall>t \<in> set waits. t \<le> 5000) \<and>
       (\<forall>k < length waits.
          isl (price_attempt (historical_prices alchemy tokenAddress network timestamp (1 + k)))) \<and>
       r = price_attempt
             (historical_prices alchemy tokenAddress network timestamp (1 + length waits)) \<and>
       (isl r \<longrightarrow> length waits = 3)"
    using pRetry_policy [of "\<lambda>attemptNumber. price_attempt
            (historical_prices alchemy tokenAddress network timestamp attemptNumber)",
          folded getTokenPrice_run_def]
    unfolding run prod.case .
  have null: "getTokenPrice alchemy tokenAddress network timestamp =
      (case r of Inl e \<Rightarrow> None | Inr v \<Rightarrow> Some v)"
    unfolding getTokenPrice_def run by (simp split: sum.splits)
  show "case getTokenPrice_run alchemy tokenAddress network timestamp of
     (r, waits) \<Rightarrow>
       length waits + 1 \<le> 4 \<and>
       take (length waits) [1000, 2000, 4000] = waits \<and>
       (\<forall>t \<in> set waits. t \<le> 5000) \<and>
       (\<forall>k < length waits.
          isl (price_attempt (historical_prices alchemy tokenAddress network timestamp (1 + k)))) \<and>
       r = price_attempt
             (historical_prices alchemy tokenAddress network timestamp (1 + length waits)) \<and>
       (isl r \<longrightarrow> length waits = 3) \<and>
       getTokenPrice alchemy tokenAddress network timestamp =
         (case r of Inl e \<Rightarrow> None | Inr v \<Rightarrow> Some v)"
    unfolding run prod.case using policy null by blast
next
  obtain r waits where
    run: "getTokenCreationDate_run alchemy tokenAddress network = (r, waits)"
    by (cases "getTokenCreationDate_run alchemy tokenAddress network")
  have policy: "length waits + 1 \<le> 4 \<and>
       take (length waits) [1000, 2000, 4000] = waits \<and>
       (\<forall>t \<in> set waits. t \<le> 5000) \<and>
       (\<forall>k < length waits.
          isl (creation_attempt (asset_transfers alchemy tokenAddress network (1 + k)))) \<and>
       r = creation_attempt (asset_transfers alchemy tokenAddress network (1 + length waits)) \<and>
       (isl r \<longrightarrow> length waits = 3)"
    using pRetry_policy [of "\<lambda>attemptNumber. creation_attempt
            (asset_transfers alchemy tokenAddress network attemptNumber)",
          folded getTokenCreationDate_run_def]
    unfolding run prod.case .
  have null: "getTokenCreationDate alchemy tokenAddress network =
      (case r of Inl e \<Rightarrow> None | Inr v \<Rightarrow> Some v)"
    unfolding getTokenCreationDate_def run by (simp split: sum.splits)
  show "case getTokenCreationDate_run alchemy tokenAddress network of
     (r, waits) \<Rightarrow>
       length waits + 1 \<le> 4 \<and>
       take (length waits) [1000, 2000, 4000] = waits \<and>
       (\<forall>t \<in> set waits. t \<le> 5000) \<and>
       (\<forall>k < length waits.
          isl (creation_attempt (asset_transfers alchemy tokenAddress network (1 + k)))) \<and>
       r = creation_attempt (asset_transfers alchemy tokenAddress network (1 + length waits)) \<and>
       (isl r \<longrightarrow> length waits = 3) \<and>
       getTokenCreationDate alchemy tokenAddress network =
         (case r of Inl e \<Rightarrow> None | Inr v \<Rightarrow> Some v)"
    unfolding run prod.case using policy null by blast
next
  show "\<not> response_ok response \<longrightarrow> isl (price_attempt response)"
    by (simp add: price_attempt_def)
next
  show "batchGetHistoricalPrices alchemy tokenAddress network timestamps =
     map (getTokenPrice alchemy tokenAddress network) timestamps"
    by (rule batchGetHistoricalPrices_map)
qed

theorem getTokenPrice_not_found_counterexample:
  "getTokenPrice_run not_found_provider ''0xabc'' ''ethereum'' 1700000000 =
     (Inl (Error ''HTTP error! status: 404''), [1000, 2000, 4000]) \<and>
   \<not> length (snd (getTokenPrice_run not_found_provider ''0xabc'' ''ethereum'' 1700000000)) + 1
       \<le> 3"
  by (simp add: getTokenPrice_run_def pRetry_def timeouts_price not_found_provider_def
        price_attempt_def response_ok_def digits.simps Let_def)

theorem provider_retry_policy_witness:
  "isl (fst (getTokenPrice_run not_found_provider ''0xabc'' ''ethereum'' 1700000000)) \<and>
   length (snd (getTokenPrice_run not_found_provider ''0xabc'' ''ethereum'' 1700000000)) = 3 \<and>
   getTokenPrice not_found_provider ''0xabc'' ''ethereum'' 1700000000 = None \<and>
   isl (fst (getTokenCreationDate_run not_found_provider ''0xabc'' ''ethereum'')) \<and>
   length (snd (getTokenCreationDate_run not_found_provider ''0xabc'' ''ethereum'')) = 3 \<and>
   getTokenCreationDate not_found_provider ''0xabc'' ''ethereum'' = None \<and>
   \<not> response_ok \<lparr>status = 404, body = None\<rparr> \<and>
   isl (price_attempt \<lparr>status = 404, body = None\<rparr>) \<and>
   batchGetHistoricalPrices not_found_provider ''0xabc'' ''ethereum'' [1700000000, 1700086400]
     = [None, None]"
  using provider_retry_policy
          [where alchemy = not_found_provider and tokenAddress = "''0xabc''"
             and network = "''ethereum''" and timestamp = 1700000000
             and response = "\<lparr>status = 404, body = None\<rparr>"
             and timestamps = "[1700000000, 1700086400]"]
  by (auto simp add: not_found_provider_def price_attempt_def creation_attempt_def
        response_ok_def getTokenPrice_def getTokenPrice_run_def pRetry_def timeouts_price
        split: prod.splits sum.splits)

section \<open>Properties of the price route\<close>

lemmas route_defs = price_route_def price_route_body_def await_def ret_def throw_def
  on_store_def on_redis_def MemStorage_ops_def Mem_createPriceQuery_def
  Mem_createHistoricalPrice_def Mem_getHistoricalPrice_def Mem_getNearestHistoricalPrices_def
  getCachedPrice_def setCachedPrice_def redis_get_def redis_set_def next_call_def Let_def
  audit_def or_null_str_def

lemma route_on_hit:
  assumes "getCachedPrice (req_token req) (req_network req) (req_timestamp req) (redis w) = (Some c, r1)"
  shows "price_route_body storage alchemy req w =
     (case j_price c of
        None \<Rightarrow> (Inl (TypeError ''Cannot read properties of null (reading 'toString')''), w\<lparr>redis := r1\<rparr>)
      | Some p \<Rightarrow>
          await (on_store (createPriceQuery storage
                   (audit (req_token req) (req_network req) (req_timestamp req) (toString p)
                      ''cache''))) (\<lambda>_.
          ret (Json \<lparr>j_price = json_num p,
                     j_source = ''cache'',
                     j_marketCap = Option.bind (j_marketCap c) json_num,
                     j_volume = Option.bind (j_volume c) json_num,
                     j_details = None\<rparr>)) (w\<lparr>redis := r1\<rparr>))"
  using assms
  by (simp add: price_route_body_def Let_def await_def on_redis_def throw_def
        split: option.splits)

lemma cached_entries:
  "entries (snd (getCachedPrice tokenAddress network timestamp c)) = entries c"
  by (simp add: getCachedPrice_def redis_get_def next_call_def Let_def split: list.splits)

lemma query_ids_new: "query_ids_below (MemStorage_new t)"
  by (simp add: query_ids_below_def MemStorage_new_def)

lemma query_id_fresh:
  "query_ids_below s \<Longrightarrow> currentQueryId s \<notin> fst ` set (priceQueries s)"
  by (auto simp add: query_ids_below_def list_all_iff)

lemma query_ids_appended:
  "query_ids_below s \<Longrightarrow> priceQueries s' = priceQueries s @ [(currentQueryId s, q)] \<Longrightarrow>
   currentQueryId s' = Suc (currentQueryId s) \<Longrightarrow> query_ids_below s'"
  by (auto simp add: query_ids_below_def list_all_iff)

lemma query_ids_same:
  "query_ids_below s \<Longrightarrow> priceQueries s' = priceQueries s \<Longrightarrow>
   currentQueryId s' = currentQueryId s \<Longrightarrow> query_ids_below s'"
  by (simp add: query_ids_below_def)

text \<open>
  C1. With the in-memory storage, in a state whose query ids are below the next one, a
  request that is answered with a price adds exactly one record to the audit log, under
  the next query id; the record carries the source of the response, which is the first
  tier that had an answer: \<open>cache\<close>, \<open>storage\<close>, \<open>alchemy\<close> for the provider, or
  \<open>interpolated\<close>. A request that is answered with "not found", or with an error, adds
  no record. The query ids are below the next one after the request as well.
\<close>

theorem resolved_price_is_audited_once:
  "query_ids_below (store w) \<Longrightarrow>
   (case price_route MemStorage_ops alchemy req w of
      (response, w') \<Rightarrow>
        query_ids_below (store w') \<and>
        (case response of
           Json b \<Rightarrow>
             (\<exists>q. priceQueries (store w') = priceQueries (store w) @ [(currentQueryId (store w), q)] \<and>
                  pq_source q = j_source b \<and>
                  j_source b = tier alchemy req w \<and>
                  j_source b \<in> {''cache'', ''storage'', ''alchemy'', ''interpolated''})
         | NotFound \<Rightarrow> priceQueries (store w') = priceQueries (store w)
         | InternalServerError m \<Rightarrow> priceQueries (store w') = priceQueries (store w)))"
proof -
  assume ids: "query_ids_below (store w)"
  then have fresh: "currentQueryId (store w) \<notin> fst ` set (priceQueries (store w))"
    by (rule query_id_fresh)
  have log: "case price_route MemStorage_ops alchemy req w of
      (response, w') \<Rightarrow>
        (case response of
           Json b \<Rightarrow>
             (\<exists>q. priceQueries (store w') = priceQueries (store w) @ [(currentQueryId (store w), q)] \<and>
                  pq_source q = j_source b \<and>
                  j_source b = tier alchemy req w \<and>
                  j_source b \<in> {''cache'', ''storage'', ''alchemy'', ''interpolated''}) \<and>
             currentQueryId (store w') = Suc (currentQueryId (store w))
         | NotFound \<Rightarrow> priceQueries (store w') = priceQueries (store w) \<and>
             currentQueryId (store w') = currentQueryId (store w)
         | InternalServerError m \<Rightarrow> priceQueries (store w') = priceQueries (store w) \<and>
             currentQueryId (store w') = currentQueryId (store w))"
    using fresh
    by (auto simp add: route_defs tier_def to_json_def Map_set_fresh
          split: option.splits list.splits prod.splits if_splits)
  obtain response w' where run: "price_route MemStorage_ops alchemy req w = (response, w')"
    by (cases "price_route MemStorage_ops alchemy req w") auto
  have keep: "query_ids_below (store w')"
  proof (cases response)
    case (Json b)
    with log run ids show ?thesis by (auto intro: query_ids_appended)
  next
    case NotFound
    with log run ids show ?thesis by (auto intro: query_ids_same)
  next
    case (InternalServerError m)
    with log run ids show ?thesis by (auto intro: query_ids_same)
  qed
  show ?thesis using log keep unfolding run by (auto split: Response.splits)
qed

theorem provider_tag_counterexample:
  "map (pq_source \<circ> snd)
     (priceQueries (store (snd (price_route MemStorage_ops priced_provider sample_request
        empty_world)))) = [''alchemy''] \<and>
   ''alchemy'' \<notin> {''cache'', ''storage'', ''provider'', ''interpolated''}"
  by (simp add: route_defs sample_request_def empty_world_def priced_provider_def
        MemStorage_new_def Map_get_def getTokenPrice_def getTokenPrice_run_def pRetry_def
        timeouts_price price_attempt_def response_ok_def toString_def)

theorem resolved_price_is_audited_once_witness:
  "query_ids_below (store cached_world) \<and>
   map (pq_source \<circ> snd)
     (priceQueries (store (snd (price_route MemStorage_ops not_found_provider sample_request
        cached_world)))) = [''cache'']"
  using resolved_price_is_audited_once
          [where w = cached_world and alchemy = not_found_provider and req = sample_request]
  by (simp add: route_defs cached_world_def MemStorage_new_def tier_def sample_request_def
        toString_def query_ids_below_def)

text \<open>
  C8. When the cache has an entry for the request, the route, with the in-memory storage,
  leaves the entries of the cache and the price points of the storage as they were, and
  takes no new price id. When the entry has a price, the response carries the price, the
  market cap and the volume of the entry, with the source \<open>cache\<close>.
\<close>

theorem cache_hit_writes_nothing:
  "fst (getCachedPrice (req_token req) (req_network req) (req_timestamp req) (redis w)) = Some c \<Longrightarrow>
   (case price_route MemStorage_ops alchemy req w of
      (response, w') \<Rightarrow>
        entries (redis w') = entries (redis w) \<and>
        historicalPrices (store w') = historicalPrices (store w) \<and>
        currentPriceId (store w') = currentPriceId (store w) \<and>
        bulkFetchJobs (store w') = bulkFetchJobs (store w) \<and>
        (\<forall>p. j_price c = Some p \<longrightarrow>
           response = Json \<lparr>j_price = json_num p,
                             j_source = ''cache'',
                             j_marketCap = Option.bind (j_marketCap c) json_num,
                             j_volume = Option.bind (j_volume c) json_num,
                             j_details = None\<rparr>))"
proof -
  assume hit: "fst (getCachedPrice (req_token req) (req_network req) (req_timestamp req) (redis w)) = Some c"
  define r1 where "r1 = snd (getCachedPrice (req_token req) (req_network req) (req_timestamp req) (redis w))"
  have get: "getCachedPrice (req_token req) (req_network req) (req_timestamp req) (redis w) = (Some c, r1)"
    using hit by (simp add: r1_def prod_eq_iff)
  have e: "entries r1 = entries (redis w)"
    unfolding r1_def by (rule cached_entries)
  show ?thesis
    unfolding price_route_def route_on_hit [OF get]
    using e
    by (simp add: await_def ret_def on_store_def MemStorage_ops_def Mem_createPriceQuery_def
          Let_def split: option.splits)
qed

theorem cache_hit_writes_nothing_witness:
  "fst (getCachedPrice (req_token sample_request) (req_network sample_request)
          (req_timestamp sample_request) (redis cached_world)) \<noteq> None \<and>
   historicalPrices (store (snd (price_route MemStorage_ops not_found_provider sample_request
      cached_world))) = [] \<and>
   fst (price_route MemStorage_ops not_found_provider sample_request cached_world) =
     Json \<lparr>j_price = Some (Fin 2), j_source = ''cache'', j_marketCap = None,
            j_volume = None, j_details = None\<rparr>"
  using cache_hit_writes_nothing
          [where w = cached_world and alchemy = not_found_provider and req = sample_request]
  by (simp add: route_defs cached_world_def MemStorage_new_def sample_request_def
        toString_def)

lemma rnd_quarter: "rnd (1 / 4) = Fin (1 / 4)"
  by code_simp

lemma rnd_2: "rnd 2 = Fin 2"
  by code_simp

lemma rnd_9: "rnd 9 = Fin 9"
  by code_simp

lemma keys_apart:
  "price_key ''0xabc'' ''ethereum'' 1699996400 \<noteq> price_key ''0xabc'' ''ethereum'' 1700000000"
  "price_key ''0xabc'' ''ethereum'' 1700000000 \<noteq> price_key ''0xabc'' ''ethereum'' 1699996400"
  "price_key ''0xabc'' ''ethereum'' 1700003600 \<noteq> price_key ''0xabc'' ''ethereum'' 1700000000"
  "price_key ''0xabc'' ''ethereum'' 1700000000 \<noteq> price_key ''0xabc'' ''ethereum'' 1700003600"
  "price_key ''0xabc'' ''ethereum'' 1699996400 \<noteq> price_key ''0xabc'' ''ethereum'' 1700003600"
  "price_key ''0xabc'' ''ethereum'' 1700003600 \<noteq> price_key ''0xabc'' ''ethereum'' 1699996400"
  by (simp_all add: price_key_def show_int_def digits.simps)

lemma bracketed_store:
  "store bracketed_world = \<lparr>priceQueries = [],
     historicalPrices =
       [(price_key ''0xabc'' ''ethereum'' 1699996400, point 1699996400 (Fin 8)),
        (price_key ''0xabc'' ''ethereum'' 1700003600,
         (point 1700003600 (Fin 10))\<lparr>hp_id := 2\<rparr>)],
     bulkFetchJobs = [], currentQueryId = 1, currentPriceId = 3, currentJobId = 1, clock = 0\<rparr>"
  by (simp add: bracketed_world_def Mem_createHistoricalPrice_def MemStorage_new_def quote_at_def
        point_def or_null_str_def Let_def keys_apart)

lemma bracketed_read:
  "Mem_getHistoricalPrice ''0xabc'' ''ethereum'' 1700000000 (store bracketed_world) =
     (Inr None, store bracketed_world)"
  by (simp add: Mem_getHistoricalPrice_def bracketed_store Map_get_def keys_apart)

lemma bracketed_nearest:
  "Mem_getNearestHistoricalPrices ''0xabc'' ''ethereum'' 1700000000 (store bracketed_world) =
     (Inr (Some (point 1699996400 (Fin 8)), Some ((point 1700003600 (Fin 10))\<lparr>hp_id := 2\<rparr>)),
      store bracketed_world)"
  by (simp add: Mem_getNearestHistoricalPrices_def bracketed_store Map_values_def first_of_def
        point_def)

lemma bracketed_can:
  "canInterpolate (point 1699996400 (Fin 8)) ((point 1700003600 (Fin 10))\<lparr>hp_id := 2\<rparr>)
     1700000000"
  by (simp add: canInterpolate_def point_def parseFloat_def jsub_def rnd_2 rnd_quarter)

lemma bracketed_price:
  "interpolatePrice 1700000000 (point 1699996400 (Fin 8))
     ((point 1700003600 (Fin 10))\<lparr>hp_id := 2\<rparr>) =
     \<lparr>ir_price = Fin 9, ir_source = ''interpolated'',
      ir_details = \<lparr>beforePrice = Fin 8, afterPrice = Fin 10, beforeTimestamp = 1699996400,
                    afterTimestamp = 1700003600, ratio = Fin (1 / 2)\<rparr>\<rparr>"
  by (simp add: interpolatePrice_def Let_def num_def point_def parseFloat_def jsub_def
        rnd_half rnd_1 rnd_2 rnd_9)

lemma no_quote: "getTokenPrice not_found_provider a n t = None"
  by (simp add: getTokenPrice_def getTokenPrice_run_def pRetry_def timeouts_price
        not_found_provider_def price_attempt_def response_ok_def Let_def)

text \<open>
  C6. A call of the Redis client that rejects is a miss on a read and a skipped write on
  a write, and with the in-memory storage, which never throws, no schedule of outages of
  the Redis client makes the response an error when the cached entry of the request, if
  there is one, carries a price. A provider call that failed is a miss: the route goes on
  to the interpolation tier, and answers with the interpolated price when the storage
  brackets the timestamp with two price points that \<open>canInterpolate\<close> accepts, and with
  NotFound otherwise. An exception of a storage call is not caught where it is raised:
  when the read of the storage tier throws, when the write of the price point on the
  provider tier throws, or when the write of the audit record on the interpolation tier
  throws, the response is the error of the \<open>catch\<close> block of the route, with the
  message of the exception.
\<close>

theorem tier_errors:
  "(outages c = True # os \<longrightarrow>
      fst (getCachedPrice tokenAddress network timestamp c) = None \<and>
      entries (setCachedPrice tokenAddress network timestamp result c) = entries c) \<and>
   ((\<forall>p. fst (getCachedPrice (req_token req) (req_network req) (req_timestamp req) (redis w))
            = Some p \<longrightarrow> j_price p \<noteq> None) \<longrightarrow>
      (\<forall>m. fst (price_route MemStorage_ops alchemy req w) \<noteq> InternalServerError m)) \<and>
   (fst (getCachedPrice (req_token req) (req_network req) (req_timestamp req) (redis v)) = None \<and>
    fst (getHistoricalPrice storage (req_token req) (req_network req) (req_timestamp req) (store v))
      = Inl e \<longrightarrow>
      fst (price_route storage alchemy req v) = InternalServerError (message e)) \<and>
   (fst (getCachedPrice (req_token req) (req_network req) (req_timestamp req) (redis v)) = None \<and>
    getHistoricalPrice storage (req_token req) (req_network req) (req_timestamp req) (store v)
      = (Inr None, sr) \<and>
    getTokenPrice alchemy (req_token req) (req_network req) (req_timestamp req) = Some quoted \<and>
    fst (createHistoricalPrice storage
           \<lparr>ihp_tokenAddress = req_token req, ihp_network = req_network req,
            ihp_timestamp = req_timestamp req, ihp_price = toString (tp_price quoted),
            ihp_marketCap = map_option toString (tp_marketCap quoted),
            ihp_volume = map_option toString (tp_volume quoted)\<rparr> sr) = Inl e \<longrightarrow>
      fst (price_route storage alchemy req v) = InternalServerError (message e)) \<and>
   (fst (getCachedPrice (req_token req) (req_network req) (req_timestamp req) (redis v)) = None \<and>
    getHistoricalPrice storage (req_token req) (req_network req) (req_timestamp req) (store v)
      = (Inr None, sr) \<and>
    getTokenPrice alchemy (req_token req) (req_network req) (req_timestamp req) = None \<and>
    getNearestHistoricalPrices storage (req_token req) (req_network req) (req_timestamp req) sr
      = (Inr (Some before, Some after), sn) \<and>
    canInterpolate before after (req_timestamp req) \<longrightarrow>
      (\<not> isl (fst (createPriceQuery storage
          (audit (req_token req) (req_network req) (req_timestamp req)
             (toString (ir_price (interpolatePrice (req_timestamp req) before after)))
             ''interpolated'') sn)) \<longrightarrow>
       fst (price_route storage alchemy req v) =
         Json (to_json
           \<lparr>r_price = ir_price (interpolatePrice (req_timestamp req) before after),
            r_source = ''interpolated'', r_marketCap = None, r_volume = None,
            r_details = Some (ir_details (interpolatePrice (req_timestamp req) before after))\<rparr>)) \<and>
      (fst (createPriceQuery storage
          (audit (req_token req) (req_network req) (req_timestamp req)
             (toString (ir_price (interpolatePrice (req_timestamp req) before after)))
             ''interpolated'') sn) = Inl e \<longrightarrow>
       fst (price_route storage alchemy req v) = InternalServerError (message e))) \<and>
   (fst (getCachedPrice (req_token req) (req_network req) (req_timestamp req) (redis v)) = None \<and>
    getHistoricalPrice storage (req_token req) (req_network req) (req_timestamp req) (store v)
      = (Inr None, sr) \<and>
    getTokenPrice alchemy (req_token req) (req_network req) (req_timestamp req) = None \<and>
    fst (getNearestHistoricalPrices storage (req_token req) (req_network req) (req_timestamp req)
           sr) = Inr nearest \<and>
    (case nearest of
       (Some before, Some after) \<Rightarrow> \<not> canInterpolate before after (req_timestamp req)
     | _ \<Rightarrow> True) \<longrightarrow>
      fst (price_route storage alchemy req v) = NotFound)"
proof (intro conjI impI)
  assume "outages c = True # os"
  then show "fst (getCachedPrice tokenAddress network timestamp c) = None"
    by (simp add: getCachedPrice_def redis_get_def next_call_def)
next
  assume "outages c = True # os"
  then show "entries (setCachedPrice tokenAddress network timestamp result c) = entries c"
    by (simp add: setCachedPrice_def redis_set_def next_call_def)
next
  assume "\<forall>p. fst (getCachedPrice (req_token req) (req_network req) (req_timestamp req) (redis w))
            = Some p \<longrightarrow> j_price p \<noteq> None"
  then show "\<forall>m. fst (price_route MemStorage_ops alchemy req w) \<noteq> InternalServerError m"
    by (auto simp add: route_defs split: option.splits list.splits prod.splits if_splits)
next
  assume "fst (getCachedPrice (req_token req) (req_network req) (req_timestamp req) (redis v)) = None \<and>
    fst (getHistoricalPrice storage (req_token req) (req_network req) (req_timestamp req) (store v))
      = Inl e"
  then show "fst (price_route storage alchemy req v) = InternalServerError (message e)"
    by (auto simp add: price_route_def price_route_body_def await_def on_redis_def on_store_def
          Let_def split: prod.splits sum.splits)
next
  assume "fst (getCachedPrice (req_token req) (req_network req) (req_timestamp req) (redis v)) = None \<and>
    getHistoricalPrice storage (req_token req) (req_network req) (req_timestamp req) (store v)
      = (Inr None, sr) \<and>
    getTokenPrice alchemy (req_token req) (req_network req) (req_timestamp req) = Some quoted \<and>
    fst (createHistoricalPrice storage
           \<lparr>ihp_tokenAddress = req_token req, ihp_network = req_network req,
            ihp_timestamp = req_timestamp req, ihp_price = toString (tp_price quoted),
            ihp_marketCap = map_option toString (tp_marketCap quoted),
            ihp_volume = map_option toString (tp_volume quoted)\<rparr> sr) = Inl e"
  then show "fst (price_route storage alchemy req v) = InternalServerError (message e)"
    by (auto simp add: price_route_def price_route_body_def await_def on_redis_def on_store_def
          Let_def split: prod.splits sum.splits)
next
  assume "fst (getCachedPrice (req_token req) (req_network req) (req_timestamp req) (redis v)) = None \<and>
    getHistoricalPrice storage (req_token req) (req_network req) (req_timestamp req) (store v)
      = (Inr None, sr) \<and>
    getTokenPrice alchemy (req_token req) (req_network req) (req_timestamp req) = None \<and>
    getNearestHistoricalPrices storage (req_token req) (req_network req) (req_timestamp req) sr
      = (Inr (Some before, Some after), sn) \<and>
    canInterpolate before after (req_timestamp req)"
    and "\<not> isl (fst (createPriceQuery storage
          (audit (req_token req) (req_network req) (req_timestamp req)
             (toString (ir_price (interpolatePrice (req_timestamp req) before after)))
             ''interpolated'') sn))"
  then show "fst (price_route storage alchemy req v) =
         Json (to_json
           \<lparr>r_price = ir_price (interpolatePrice (req_timestamp req) before after),
            r_source = ''interpolated'', r_marketCap = None, r_volume = None,
            r_details = Some (ir_details (interpolatePrice (req_timestamp req) before after))\<rparr>)"
    by (auto simp add: price_route_def price_route_body_def await_def on_redis_def on_store_def
          ret_def Let_def split: prod.splits sum.splits)
next
  assume "fst (getCachedPrice (req_token req) (req_network req) (req_timestamp req) (redis v)) = None \<and>
    getHistoricalPrice storage (req_token req) (req_network req) (req_timestamp req) (store v)
      = (Inr None, sr) \<and>
    getTokenPrice alchemy (req_token req) (req_network req) (req_timestamp req) = None \<and>
    getNearestHistoricalPrices storage (req_token req) (req_network req) (req_timestamp req) sr
      = (Inr (Some before, Some after), sn) \<and>
    canInterpolate before after (req_timestamp req)"
    and "fst (createPriceQuery storage
          (audit (req_token req) (req_network req) (req_timestamp req)
             (toString (ir_price (interpolatePrice (req_timestamp req) before after)))
             ''interpolated'') sn) = Inl e"
  then show "fst (price_route storage alchemy req v) = InternalServerError (message e)"
    by (auto simp add: price_route_def price_route_body_def await_def on_redis_def on_store_def
          ret_def Let_def split: prod.splits sum.splits)
next
  assume "fst (getCachedPrice (req_token req) (req_network req) (req_timestamp req) (redis v)) = None \<and>
    getHistoricalPrice storage (req_token req) (req_network req) (req_timestamp req) (store v)
      = (Inr None, sr) \<and>
    getTokenPrice alchemy (req_token req) (req_network req) (req_timestamp req) = None \<and>
    fst (getNearestHistoricalPrices storage (req_token req) (req_network req) (req_timestamp req)
           sr) = Inr nearest \<and>
    (case nearest of
       (Some before, Some after) \<Rightarrow> \<not> canInterpolate before after (req_timestamp req)
     | _ \<Rightarrow> True)"
  then show "fst (price_route storage alchemy req v) = NotFound"
    by (auto simp add: price_route_def price_route_body_def await_def on_redis_def on_store_def
          ret_def Let_def split: prod.splits sum.splits option.splits)
qed

theorem unreachable_storage_counterexample:
  "getTokenPrice priced_provider ''0xabc'' ''ethereum'' 1700000000 \<noteq> None \<and>
   fst (price_route unreachable_storage priced_provider sample_request unreachable_world)
     = InternalServerError ''connect ECONNREFUSED'' \<and>
   fst (price_route read_only_storage priced_provider sample_request empty_world)
     = InternalServerError ''read-only transaction''"
proof -
  have "getTokenPrice priced_provider ''0xabc'' ''ethereum'' 1700000000 \<noteq> None"
    by (simp add: priced_provider_def getTokenPrice_def getTokenPrice_run_def pRetry_def
          timeouts_price price_attempt_def response_ok_def)
  moreover
  have "fst (price_route unreachable_storage priced_provider sample_request unreachable_world)
     = InternalServerError ''connect ECONNREFUSED''"
    by (simp add: price_route_def price_route_body_def await_def on_redis_def on_store_def
          Let_def throw_def unreachable_storage_def unreachable_world_def sample_request_def
          getCachedPrice_def redis_get_def next_call_def
          priced_provider_def getTokenPrice_def getTokenPrice_run_def pRetry_def
          timeouts_price price_attempt_def response_ok_def)
  moreover
  have "fst (price_route read_only_storage priced_provider sample_request empty_world)
     = InternalServerError ''read-only transaction''"
    by (simp add: route_defs read_only_storage_def sample_request_def empty_world_def
          MemStorage_new_def Map_get_def priced_provider_def getTokenPrice_def
          getTokenPrice_run_def pRetry_def timeouts_price price_attempt_def response_ok_def
          toString_def to_json_def)
  ultimately show ?thesis by simp
qed

theorem tier_errors_witness:
  "outages (redis cache_down_world) = [True, True] \<and>
   fst (getCachedPrice ''0xabc'' ''ethereum'' 1700000000 (redis cache_down_world)) = None \<and>
   fst (price_route MemStorage_ops priced_provider sample_request cache_down_world) =
     Json \<lparr>j_price = Some (Fin 2), j_source = ''alchemy'', j_marketCap = None,
            j_volume = None, j_details = None\<rparr> \<and>
   fst (price_route unreachable_storage priced_provider sample_request unreachable_world) =
     InternalServerError ''connect ECONNREFUSED'' \<and>
   fst (price_route read_only_storage priced_provider sample_request empty_world) =
     InternalServerError ''read-only transaction'' \<and>
   getTokenPrice not_found_provider ''0xabc'' ''ethereum'' 1700000000 = None \<and>
   fst (price_route MemStorage_ops not_found_provider sample_request bracketed_world) =
     Json \<lparr>j_price = Some (Fin 9), j_source = ''interpolated'', j_marketCap = None,
            j_volume = None,
            j_details = Some \<lparr>dj_beforePrice = Some (Fin 8), dj_afterPrice = Some (Fin 10),
              dj_beforeTimestamp = 1699996400, dj_afterTimestamp = 1700003600,
              dj_ratio = Some (Fin (1 / 2))\<rparr>\<rparr> \<and>
   fst (price_route read_only_storage not_found_provider sample_request bracketed_world) =
     InternalServerError ''read-only transaction'' \<and>
   fst (price_route MemStorage_ops not_found_provider sample_request empty_world) = NotFound"
proof -
  have down: "outages (redis cache_down_world) = [True, True]"
    by (simp add: cache_down_world_def)
  have priced: "\<forall>p. fst (getCachedPrice (req_token sample_request) (req_network sample_request)
      (req_timestamp sample_request) (redis cache_down_world)) = Some p \<longrightarrow> j_price p \<noteq> None"
    by (simp add: cache_down_world_def getCachedPrice_def redis_get_def next_call_def)
  have quoted: "getTokenPrice priced_provider (req_token sample_request)
      (req_network sample_request) (req_timestamp sample_request) =
      Some \<lparr>tp_price = Fin 2, tp_timestamp = 1700000000, tp_marketCap = None,
             tp_volume = None\<rparr>"
    by (simp add: priced_provider_def getTokenPrice_def getTokenPrice_run_def pRetry_def
          timeouts_price price_attempt_def response_ok_def sample_request_def)
  have miss:
    "fst (getCachedPrice (req_token sample_request) (req_network sample_request)
       (req_timestamp sample_request) (redis unreachable_world)) = None"
    "fst (getCachedPrice (req_token sample_request) (req_network sample_request)
       (req_timestamp sample_request) (redis empty_world)) = None"
    "fst (getCachedPrice (req_token sample_request) (req_network sample_request)
       (req_timestamp sample_request) (redis bracketed_world)) = None"
    by (simp_all add: getCachedPrice_def redis_get_def next_call_def unreachable_world_def
          empty_world_def bracketed_world_def)
  have unstored: "Mem_getHistoricalPrice (req_token sample_request) (req_network sample_request)
      (req_timestamp sample_request) (store empty_world) = (Inr None, store empty_world)"
    "Mem_getNearestHistoricalPrices (req_token sample_request) (req_network sample_request)
      (req_timestamp sample_request) (store empty_world) = (Inr (None, None), store empty_world)"
    by (simp_all add: empty_world_def Mem_getHistoricalPrice_def MemStorage_new_def Map_get_def
          Mem_getNearestHistoricalPrices_def Map_values_def first_of_def)
  have read: "Mem_getHistoricalPrice (req_token sample_request) (req_network sample_request)
      (req_timestamp sample_request) (store bracketed_world) = (Inr None, store bracketed_world)"
    by (simp add: sample_request_def bracketed_read)
  have nearest: "Mem_getNearestHistoricalPrices (req_token sample_request)
      (req_network sample_request) (req_timestamp sample_request) (store bracketed_world) =
      (Inr (Some (point 1699996400 (Fin 8)), Some ((point 1700003600 (Fin 10))\<lparr>hp_id := 2\<rparr>)),
       store bracketed_world)"
    by (simp add: sample_request_def bracketed_nearest)
  have can: "canInterpolate (point 1699996400 (Fin 8))
      ((point 1700003600 (Fin 10))\<lparr>hp_id := 2\<rparr>) (req_timestamp sample_request)"
    by (simp add: sample_request_def bracketed_can)
  have price: "interpolatePrice (req_timestamp sample_request) (point 1699996400 (Fin 8))
     ((point 1700003600 (Fin 10))\<lparr>hp_id := 2\<rparr>) =
     \<lparr>ir_price = Fin 9, ir_source = ''interpolated'',
      ir_details = \<lparr>beforePrice = Fin 8, afterPrice = Fin 10, beforeTimestamp = 1699996400,
                    afterTimestamp = 1700003600, ratio = Fin (1 / 2)\<rparr>\<rparr>"
    by (simp add: sample_request_def bracketed_price)
  have a: "fst (price_route MemStorage_ops priced_provider sample_request cache_down_world) =
     Json \<lparr>j_price = Some (Fin 2), j_source = ''alchemy'', j_marketCap = None,
            j_volume = None, j_details = None\<rparr>"
    by (simp add: route_defs sample_request_def cache_down_world_def MemStorage_new_def
          Map_get_def priced_provider_def getTokenPrice_def getTokenPrice_run_def pRetry_def
          timeouts_price price_attempt_def response_ok_def toString_def to_json_def)
  have ops: "getHistoricalPrice MemStorage_ops = Mem_getHistoricalPrice"
    "getNearestHistoricalPrices MemStorage_ops = Mem_getNearestHistoricalPrices"
    "createPriceQuery MemStorage_ops = Mem_createPriceQuery"
    "getHistoricalPrice read_only_storage = Mem_getHistoricalPrice"
    "getNearestHistoricalPrices read_only_storage = Mem_getNearestHistoricalPrices"
    "createHistoricalPrice read_only_storage = (\<lambda>p. throw (Error ''read-only transaction''))"
    "createPriceQuery read_only_storage = (\<lambda>q. throw (Error ''read-only transaction''))"
    "getHistoricalPrice unreachable_storage = (\<lambda>a n t. throw (Error ''connect ECONNREFUSED''))"
    by (simp_all add: MemStorage_ops_def read_only_storage_def unreachable_storage_def)
  have b: "fst (price_route unreachable_storage priced_provider sample_request
      unreachable_world) = InternalServerError ''connect ECONNREFUSED''"
    using tier_errors [where v = unreachable_world and storage = unreachable_storage
          and alchemy = priced_provider and req = sample_request
          and e = "Error ''connect ECONNREFUSED''",
          THEN conjunct2, THEN conjunct2, THEN conjunct1]
    by (simp add: miss ops throw_def)
  have c: "fst (price_route read_only_storage priced_provider sample_request empty_world) =
     InternalServerError ''read-only transaction''"
    using tier_errors [where v = empty_world and storage = read_only_storage
          and alchemy = priced_provider and req = sample_request
          and e = "Error ''read-only transaction''" and sr = "store empty_world"
          and quoted = "\<lparr>tp_price = Fin 2, tp_timestamp = 1700000000, tp_marketCap = None,
                           tp_volume = None\<rparr>",
          THEN conjunct2, THEN conjunct2, THEN conjunct2, THEN conjunct1]
    by (simp add: miss quoted unstored ops throw_def)
  have d: "fst (price_route MemStorage_ops not_found_provider sample_request bracketed_world) =
     Json \<lparr>j_price = Some (Fin 9), j_source = ''interpolated'', j_marketCap = None,
            j_volume = None,
            j_details = Some \<lparr>dj_beforePrice = Some (Fin 8), dj_afterPrice = Some (Fin 10),
              dj_beforeTimestamp = 1699996400, dj_afterTimestamp = 1700003600,
              dj_ratio = Some (Fin (1 / 2))\<rparr>\<rparr>"
    using tier_errors [where v = bracketed_world and storage = MemStorage_ops
          and alchemy = not_found_provider and req = sample_request
          and sr = "store bracketed_world" and sn = "store bracketed_world"
          and before = "point 1699996400 (Fin 8)"
          and after = "(point 1700003600 (Fin 10))\<lparr>hp_id := 2\<rparr>"
          and e = "Error ''read-only transaction''",
          THEN conjunct2, THEN conjunct2, THEN conjunct2, THEN conjunct2, THEN conjunct1]
    by (simp add: miss no_quote read nearest can price ops
          Mem_createPriceQuery_def Let_def to_json_def details_to_json_def)
  have e: "fst (price_route read_only_storage not_found_provider sample_request
      bracketed_world) = InternalServerError ''read-only transaction''"
    using tier_errors [where v = bracketed_world and storage = read_only_storage
          and alchemy = not_found_provider and req = sample_request
          and sr = "store bracketed_world" and sn = "store bracketed_world"
          and before = "point 1699996400 (Fin 8)"
          and after = "(point 1700003600 (Fin 10))\<lparr>hp_id := 2\<rparr>"
          and e = "Error ''read-only transaction''",
          THEN conjunct2, THEN conjunct2, THEN conjunct2, THEN conjunct2, THEN conjunct1]
    by (simp add: miss no_quote read nearest can ops throw_def)
  have f: "fst (price_route MemStorage_ops not_found_provider sample_request empty_world) =
      NotFound"
    using tier_errors [where v = empty_world and storage = MemStorage_ops
          and alchemy = not_found_provider and req = sample_request
          and sr = "store empty_world" and nearest = "(None, None)",
          THEN conjunct2, THEN conjunct2, THEN conjunct2, THEN conjunct2, THEN conjunct2]
    by (simp add: miss no_quote unstored ops)
  have g: "\<forall>m. fst (price_route MemStorage_ops priced_provider sample_request cache_down_world)
      \<noteq> InternalServerError m"
    using tier_errors [where w = cache_down_world and alchemy = priced_provider
          and req = sample_request, THEN conjunct2, THEN conjunct1] priced
    by simp
  have h: "fst (getCachedPrice ''0xabc'' ''ethereum'' 1700000000 (redis cache_down_world)) = None"
    using tier_errors [where c = "redis cache_down_world" and os = "[True]"
          and tokenAddress = "''0xabc''" and network = "''ethereum''"
          and timestamp = 1700000000, THEN conjunct1] down
    by simp
  show ?thesis
    using down h a b c d e f no_quote by simp
qed

section \<open>Properties of the worker\<close>

lemma follows_logged: "follows (logged m) m"
  by (simp add: follows_def logged_def split: prod.splits)

lemma follows_ret: "follows (ret x) (ret x)"
  by (simp add: follows_def ret_def)

lemma follows_throw: "follows (throw e) (throw e)"
  by (simp add: follows_def throw_def)

lemma follows_await:
  assumes "follows m' m" "\<And>x. follows (f' x) (f x)"
  shows "follows (await m' f') (await m f)"
  unfolding follows_def
proof (intro allI)
  fix s h
  obtain r s1 h1 where run: "m' (s, h) = (r, s1, h1)" by (cases "m' (s, h)") auto
  with assms(1) have base: "m s = (r, s1)"
    by (metis follows_def fst_conv snd_conv prod.collapse)
  show "fst (await m' f' (s, h)) = fst (await m f s) \<and>
        fst (snd (await m' f' (s, h))) = snd (await m f s)"
  proof (cases r)
    case (Inl e)
    with run base show ?thesis by (simp add: await_def)
  next
    case (Inr x)
    with run base assms(2) [of x] show ?thesis by (simp add: await_def follows_def)
  qed
qed

lemma follows_try_catch:
  assumes "follows m' m" "\<And>e. follows (g' e) (g e)"
  shows "follows (try_catch m' g') (try_catch m g)"
  unfolding follows_def
proof (intro allI)
  fix s h
  obtain r s1 h1 where run: "m' (s, h) = (r, s1, h1)" by (cases "m' (s, h)") auto
  with assms(1) have base: "m s = (r, s1)"
    by (metis follows_def fst_conv snd_conv prod.collapse)
  show "fst (try_catch m' g' (s, h)) = fst (try_catch m g s) \<and>
        fst (snd (try_catch m' g' (s, h))) = snd (try_catch m g s)"
  proof (cases r)
    case (Inl e)
    with run base assms(2) [of e] show ?thesis by (simp add: try_catch_def follows_def)
  next
    case (Inr x)
    with run base show ?thesis by (simp add: try_catch_def)
  qed
qed

lemma traced_fields:
  "createHistoricalPrice (traced storage) p = logged (createHistoricalPrice storage p)"
  "updateBulkFetchJob (traced storage) i u = logged (updateBulkFetchJob storage i u)"
  by (simp_all add: traced_def)

lemma follows_store_from:
  "follows (store_from (traced storage) tokenAddress network batch prices j)
     (store_from storage tokenAddress network batch prices j)"
proof (induction "length prices - j" arbitrary: j)
  case 0
  then show ?case
    by (subst (1 2) store_from.simps) (simp add: follows_ret)
next
  case (Suc n)
  then have lt: "j < length prices" and n: "n = length prices - (j + 1)" by auto
  show ?case
  proof (cases "prices ! j")
    case None
    with lt Suc.hyps(1) [OF n] show ?thesis
      by (subst (1 2) store_from.simps) simp
  next
    case (Some price)
    with lt Suc.hyps(1) [OF n] show ?thesis
      by (subst (1 2) store_from.simps)
         (simp add: traced_fields follows_await follows_logged)
  qed
qed

lemma follows_job_updateProgress:
  "follows (job_updateProgress worker i p) (job_updateProgress worker i p)"
  by (simp add: job_updateProgress_def follows_ret follows_throw)

lemma follows_batches_from:
  "follows (batches_from (traced storage) alchemy worker d timestamps i)
     (batches_from storage alchemy worker d timestamps i)"
proof (induction "length timestamps - i" arbitrary: i rule: less_induct)
  case less
  show ?case
  proof (cases "i < length timestamps")
    case False
    then show ?thesis
      by (subst (1 2) batches_from.simps) (simp add: follows_ret)
  next
    case True
    then have "length timestamps - (i + batchSize) < length timestamps - i"
      by (simp add: batchSize_def)
    from less.hyps [OF this] True show ?thesis
      by (subst (1 2) batches_from.simps)
         (simp add: Let_def traced_fields follows_await follows_logged follows_store_from
            follows_job_updateProgress)
  qed
qed

lemma follows_processJob:
  "follows (processJob (traced storage) alchemy worker d) (processJob storage alchemy worker d)"
  unfolding processJob_def
  by (intro follows_try_catch follows_await)
     (auto simp add: traced_fields Let_def follows_logged follows_throw follows_batches_from
        intro!: follows_await follows_logged split: option.splits)

lemma logged_apply: "logged m (s, h) = (fst (m s), snd (m s), h @ [snd (m s)])"
  by (simp add: logged_def split: prod.splits)

lemma traced_create:
  "createHistoricalPrice (traced MemStorage_ops) p = logged (Mem_createHistoricalPrice p)"
  by (simp add: traced_def MemStorage_ops_def)

lemma traced_update:
  "updateBulkFetchJob (traced MemStorage_ops) i u = logged (Mem_updateBulkFetchJob i u)"
  by (simp add: traced_def MemStorage_ops_def)

lemma Mem_create_returns: "isl (fst (Mem_createHistoricalPrice p s)) = False"
  by (simp add: Mem_createHistoricalPrice_def Let_def)

lemma Mem_create_jobs: "bulkFetchJobs (snd (Mem_createHistoricalPrice p s)) = bulkFetchJobs s"
  by (simp add: Mem_createHistoricalPrice_def Let_def)

lemma Mem_update_returns: "fst (Mem_updateBulkFetchJob i u s) = Inr ()"
  by (simp add: Mem_updateBulkFetchJob_def Let_def split: option.splits)

lemma Mem_update_prices:
  "historicalPrices (snd (Mem_updateBulkFetchJob i u s)) = historicalPrices s"
  by (simp add: Mem_updateBulkFetchJob_def Let_def split: option.splits)

lemma Mem_update_job:
  "Map_get i (bulkFetchJobs s) = Some job \<Longrightarrow>
   Map_get i (bulkFetchJobs (snd (Mem_updateBulkFetchJob i u s))) =
     Some (if up_status u = Some ''completed''
           then (assign job u)\<lparr>job_completedAt := Some (clock s)\<rparr> else assign job u)"
  by (simp add: Mem_updateBulkFetchJob_def Let_def Map_get_Map_set)

lemma status_after_update:
  "status_at i s = Some old \<Longrightarrow>
   status_at i (snd (Mem_updateBulkFetchJob i u s)) =
     Some (case up_status u of None \<Rightarrow> old | Some v \<Rightarrow> v)"
  by (auto simp add: status_at_def Mem_update_job assign_def split: option.splits)

lemma status_after_create:
  "status_at i (snd (Mem_createHistoricalPrice p s)) = status_at i s"
  by (simp add: status_at_def Mem_create_jobs)

lemma processing_now:
  "processing_so_far jobId (s, h) \<Longrightarrow> status_at jobId s = Some ''processing''"
  using last_in_set [of h] by (auto simp add: processing_so_far_def list_all_iff)

lemma processing_extend:
  "processing_so_far jobId (s, h) \<Longrightarrow> status_at jobId s' = Some ''processing'' \<Longrightarrow>
   processing_so_far jobId (s', h @ [s'])"
  by (simp add: processing_so_far_def)

lemma store_from_keeps:
  "processing_so_far jobId st \<Longrightarrow>
   fst (store_from (traced MemStorage_ops) tokenAddress network batch prices j st) = Inr () \<and>
   processing_so_far jobId
     (snd (store_from (traced MemStorage_ops) tokenAddress network batch prices j st))"
proof (induction "length prices - j" arbitrary: j st)
  case 0
  then show ?case
    by (subst (1 2) store_from.simps) (simp add: ret_def)
next
  case (Suc n)
  then have lt: "j < length prices" and n: "n = length prices - (j + 1)" by auto
  obtain s h where st: "st = (s, h)" by (cases st)
  show ?case
  proof (cases "prices ! j")
    case None
    with lt Suc.hyps(1) [OF n Suc.prems] show ?thesis
      by (subst (1 2) store_from.simps) simp
  next
    case (Some price)
    define p where "p = \<lparr>ihp_tokenAddress = tokenAddress, ihp_network = network,
        ihp_timestamp = batch ! j, ihp_price = toString (tp_price price),
        ihp_marketCap = map_option toString (tp_marketCap price),
        ihp_volume = map_option toString (tp_volume price)\<rparr>"
    define st1 where "st1 = (snd (Mem_createHistoricalPrice p s), h @ [snd (Mem_createHistoricalPrice p s)])"
    from Suc.prems have "processing_so_far jobId st1"
      unfolding st st1_def
      by (intro processing_extend) (simp_all add: status_after_create processing_now)
    from Suc.hyps(1) [OF n this]
    have ih: "fst (store_from (traced MemStorage_ops) tokenAddress network batch prices (j + 1) st1) = Inr ()"
      "processing_so_far jobId (snd (store_from (traced MemStorage_ops) tokenAddress network batch prices (j + 1) st1))"
      by auto
    obtain x where x: "fst (Mem_createHistoricalPrice p s) = Inr x"
      using Mem_create_returns [of p s] by (cases "fst (Mem_createHistoricalPrice p s)") auto
    have step: "store_from (traced MemStorage_ops) tokenAddress network batch prices j st =
       store_from (traced MemStorage_ops) tokenAddress network batch prices (j + 1) st1"
      using lt Some x
      by (subst store_from.simps)
         (simp add: await_def traced_create logged_apply st st1_def p_def)
    show ?thesis unfolding step using ih by simp
  qed
qed

lemma update_keeps:
  "processing_so_far jobId (s, h) \<Longrightarrow> up_status u = None \<Longrightarrow>
   processing_so_far jobId
     (snd (Mem_updateBulkFetchJob jobId u s), h @ [snd (Mem_updateBulkFetchJob jobId u s)])"
  by (intro processing_extend) (simp_all add: processing_now status_after_update)

lemma batches_from_keeps:
  "processing_so_far (jd_jobId d) st \<Longrightarrow>
   processing_so_far (jd_jobId d)
     (snd (batches_from (traced MemStorage_ops) alchemy worker d timestamps i st))"
proof (induction "length timestamps - i" arbitrary: i st rule: less_induct)
  case less
  show ?case
  proof (cases "i < length timestamps")
    case False
    with less.prems show ?thesis
      by (subst batches_from.simps) (simp add: ret_def)
  next
    case True
    define batch where "batch = slice timestamps i (i + batchSize)"
    define prices where
      "prices = batchGetHistoricalPrices alchemy (jd_tokenAddress d) (jd_network d) batch"
    define st1 where "st1 = snd (store_from (traced MemStorage_ops) (jd_tokenAddress d)
      (jd_network d) batch prices 0 st)"
    define progress where "progress = jfloor (jmul (jdiv (num (int (i + batchSize)))
      (num (int (length timestamps)))) (Fin 100))"
    define u where "u = no_update\<lparr>up_progress := Some progress\<rparr>"
    define s2 where "s2 = snd (Mem_updateBulkFetchJob (jd_jobId d) u (fst st1))"
    define st2 where "st2 = (s2, snd st1 @ [s2])"
    have stored: "fst (store_from (traced MemStorage_ops) (jd_tokenAddress d)
      (jd_network d) batch prices 0 st) = Inr ()" and p1: "processing_so_far (jd_jobId d) st1"
      using store_from_keeps [OF less.prems] by (simp_all add: st1_def)
    have "up_status u = None" by (simp add: u_def no_update_def)
    with p1 have p2: "processing_so_far (jd_jobId d) st2"
      using update_keeps [of "jd_jobId d" "fst st1" "snd st1" u] by (simp add: st2_def s2_def)
    have step: "batches_from (traced MemStorage_ops) alchemy worker d timestamps i st =
      (if progress_rejects worker i then (Inl (Error ''Connection is closed.''), st2)
       else batches_from (traced MemStorage_ops) alchemy worker d timestamps (i + batchSize) st2)"
      using True stored
      apply (subst batches_from.simps)
      apply (cases "store_from (traced MemStorage_ops) (jd_tokenAddress d)
                      (jd_network d) (slice timestamps i (i + batchSize))
                      (batchGetHistoricalPrices alchemy (jd_tokenAddress d) (jd_network d)
                         (slice timestamps i (i + batchSize))) 0 st")
      apply (simp add: Let_def await_def traced_update job_updateProgress_def throw_def ret_def
               batch_def prices_def st1_def progress_def u_def s2_def st2_def Mem_update_returns
               logged_apply)
      done
    show ?thesis
    proof (cases "progress_rejects worker i")
      case True
      with step p2 show ?thesis by simp
    next
      case False
      have "length timestamps - (i + batchSize) < length timestamps - i"
        using \<open>i < length timestamps\<close> by (simp add: batchSize_def)
      from less.hyps [OF this p2] step False show ?thesis by simp
    qed
  qed
qed

lemma statuses_processing:
  "processing_so_far jobId (s, h) \<Longrightarrow>
   \<exists>k. map (status_at jobId) h = replicate (Suc k) (Some ''processing'')"
proof -
  assume p: "processing_so_far jobId (s, h)"
  then have "\<forall>y \<in> set (map (status_at jobId) h). y = Some ''processing''"
    by (auto simp add: processing_so_far_def list_all_iff)
  then have "replicate (length (map (status_at jobId) h)) (Some ''processing'') =
      map (status_at jobId) h"
    by (rule replicate_length_same)
  moreover from p obtain k where "length h = Suc k"
    by (cases h) (auto simp add: processing_so_far_def)
  ultimately show ?thesis by (intro exI [of _ k]) simp
qed

lemma progress_after_update:
  "status_at i s = Some old \<Longrightarrow> up_progress u = None \<Longrightarrow>
   progress_at i (snd (Mem_updateBulkFetchJob i u s)) = progress_at i s"
  by (auto simp add: status_at_def progress_at_def Mem_update_job assign_def split: option.splits)

lemma processJob_unresolved:
  assumes "getTokenCreationDate alchemy (jd_tokenAddress d) (jd_network d) = None \<or>
           getTokenCreationDate alchemy (jd_tokenAddress d) (jd_network d) = Some 0"
  shows "processJob (traced MemStorage_ops) alchemy worker d (s, []) =
    (Inl (Error ''Could not determine token creation date''),
     snd (Mem_updateBulkFetchJob (jd_jobId d) (mark ''failed'')
            (snd (Mem_updateBulkFetchJob (jd_jobId d) (mark ''processing'') s))),
     [snd (Mem_updateBulkFetchJob (jd_jobId d) (mark ''processing'') s),
      snd (Mem_updateBulkFetchJob (jd_jobId d) (mark ''failed'')
            (snd (Mem_updateBulkFetchJob (jd_jobId d) (mark ''processing'') s)))])"
  using assms
  by (auto simp add: processJob_def try_catch_def await_def throw_def traced_update logged_apply
        Mem_update_returns mark_def)

lemma processJob_resolved:
  assumes "getTokenCreationDate alchemy (jd_tokenAddress d) (jd_network d) = Some c" "c \<noteq> 0"
  shows "processJob (traced MemStorage_ops) alchemy worker d (s, []) =
    (let s1 = snd (Mem_updateBulkFetchJob (jd_jobId d) (mark ''processing'') s);
         timestamps = timestamps_from c (now worker) [];
         s2 = snd (Mem_updateBulkFetchJob (jd_jobId d)
                (no_update\<lparr>up_totalDays := Some (num (int (length timestamps)))\<rparr>) s1);
         run = batches_from (traced MemStorage_ops) alchemy worker d timestamps 0 (s2, [s1, s2])
     in case fst run of
          Inr x \<Rightarrow>
            (Inr (),
             snd (Mem_updateBulkFetchJob (jd_jobId d)
                    (no_update\<lparr>up_status := Some ''completed'', up_progress := Some (Fin 100)\<rparr>)
                    (fst (snd run))),
             snd (snd run) @
               [snd (Mem_updateBulkFetchJob (jd_jobId d)
                    (no_update\<lparr>up_status := Some ''completed'', up_progress := Some (Fin 100)\<rparr>)
                    (fst (snd run)))])
        | Inl e \<Rightarrow>
            (Inl e,
             snd (Mem_updateBulkFetchJob (jd_jobId d) (mark ''failed'') (fst (snd run))),
             snd (snd run) @
               [snd (Mem_updateBulkFetchJob (jd_jobId d) (mark ''failed'') (fst (snd run)))]))"
  using assms
  by (simp add: processJob_def try_catch_def await_def throw_def traced_update logged_apply
        Mem_update_returns mark_def Let_def split: prod.splits sum.splits)

lemma statuses_closed:
  assumes "processing_so_far jobId (s3, h3)" "up_status u = Some final"
  shows "\<exists>k. map (status_at jobId) (h3 @ [snd (Mem_updateBulkFetchJob jobId u s3)]) =
           replicate (Suc k) (Some ''processing'') @ [Some final]"
proof -
  from statuses_processing [OF assms(1)] obtain k where
    "map (status_at jobId) h3 = replicate (Suc k) (Some ''processing'')" by blast
  moreover have "status_at jobId (snd (Mem_updateBulkFetchJob jobId u s3)) = Some final"
    using status_after_update [OF processing_now [OF assms(1)], of u] assms(2) by simp
  ultimately show ?thesis by (intro exI [of _ k]) simp
qed

lemma started:
  "status_at jobId s = Some old \<Longrightarrow>
   processing_so_far jobId (snd (Mem_updateBulkFetchJob jobId (mark ''processing'') s),
     [snd (Mem_updateBulkFetchJob jobId (mark ''processing'') s)])"
  by (simp add: processing_so_far_def status_after_update mark_def no_update_def)

lemma progress_after:
  "progress_at i s = Some p \<Longrightarrow>
   progress_at i (snd (Mem_updateBulkFetchJob i u s)) =
     Some (case up_progress u of None \<Rightarrow> p | Some v \<Rightarrow> Some v)"
  by (auto simp add: progress_at_def Mem_update_job assign_def split: option.splits)

lemma status_scheduled: "status_at 1 scheduled = Some ''pending''"
  by (simp add: status_at_def scheduled_def addBulkFetchJob_def on_qstore_def try_catch_def
        await_def ret_def queue_add_def idle_service_def MemStorage_new_def MemStorage_ops_def
        Mem_createBulkFetchJob_def or_null_num_def falsy_num_def Map_get_def Let_def)

lemma progress_scheduled: "progress_at 1 scheduled = Some None"
  by (simp add: progress_at_def scheduled_def addBulkFetchJob_def on_qstore_def try_catch_def
        await_def ret_def queue_add_def idle_service_def MemStorage_new_def MemStorage_ops_def
        Mem_createBulkFetchJob_def or_null_num_def falsy_num_def Map_get_def Let_def)

lemma creation_unknown: "getTokenCreationDate not_found_provider a n = None"
  by (simp add: getTokenCreationDate_def getTokenCreationDate_run_def pRetry_def
        timeouts_price not_found_provider_def creation_attempt_def Let_def)

lemma run_of_job:
  "status_at (jd_jobId d) s = Some old \<Longrightarrow>
   (case processJob (traced MemStorage_ops) alchemy worker d (s, []) of
      (r, s', h) \<Rightarrow>
        (\<exists>k. map (status_at (jd_jobId d)) (s # h) =
               Some old # replicate (Suc k) (Some ''processing'') @
                 [Some (case r of Inl e \<Rightarrow> ''failed'' | Inr x \<Rightarrow> ''completed'')]) \<and>
        last h = s' \<and>
        (getTokenCreationDate alchemy (jd_tokenAddress d) (jd_network d) = None \<or>
         getTokenCreationDate alchemy (jd_tokenAddress d) (jd_network d) = Some 0 \<longrightarrow>
           isl r \<and> length h = 2 \<and>
           status_at (jd_jobId d) s' = Some ''failed'' \<and>
           progress_at (jd_jobId d) s' = progress_at (jd_jobId d) s \<and>
           historicalPrices s' = historicalPrices s))"
proof -
  assume pending: "status_at (jd_jobId d) s = Some old"
  define s1 where "s1 = snd (Mem_updateBulkFetchJob (jd_jobId d) (mark ''processing'') s)"
  have p1: "processing_so_far (jd_jobId d) (s1, [s1])"
    unfolding s1_def using pending by (rule started)
  have failed: "up_status (mark ''failed'') = Some ''failed''"
    by (simp add: mark_def no_update_def)
  show ?thesis
  proof (cases "getTokenCreationDate alchemy (jd_tokenAddress d) (jd_network d) = None \<or>
         getTokenCreationDate alchemy (jd_tokenAddress d) (jd_network d) = Some 0")
    case True
    have a: "\<exists>k. map (status_at (jd_jobId d))
                   ([s1] @ [snd (Mem_updateBulkFetchJob (jd_jobId d) (mark ''failed'') s1)]) =
               replicate (Suc k) (Some ''processing'') @ [Some ''failed'']"
      using p1 failed by (rule statuses_closed)
    have b: "status_at (jd_jobId d) (snd (Mem_updateBulkFetchJob (jd_jobId d) (mark ''failed'') s1))
               = Some ''failed''"
      using status_after_update [OF processing_now [OF p1], of "mark ''failed''"] failed by simp
    have c: "progress_at (jd_jobId d)
               (snd (Mem_updateBulkFetchJob (jd_jobId d) (mark ''failed'') s1)) =
             progress_at (jd_jobId d) s"
      using progress_after_update [OF processing_now [OF p1], of "mark ''failed''"]
        progress_after_update [OF pending, of "mark ''processing''"]
      by (simp add: s1_def mark_def no_update_def)
    show ?thesis
      unfolding processJob_unresolved [OF True]
      using a b c True pending by (simp add: s1_def Mem_update_prices)
  next
    case False
    then obtain c where c: "getTokenCreationDate alchemy (jd_tokenAddress d) (jd_network d) = Some c"
      "c \<noteq> 0" by (cases "getTokenCreationDate alchemy (jd_tokenAddress d) (jd_network d)") auto
    define timestamps where "timestamps = timestamps_from c (now worker) []"
    define s2 where "s2 = snd (Mem_updateBulkFetchJob (jd_jobId d)
                (no_update\<lparr>up_totalDays := Some (num (int (length timestamps)))\<rparr>) s1)"
    define run where
      "run = batches_from (traced MemStorage_ops) alchemy worker d timestamps 0 (s2, [s1, s2])"
    have "processing_so_far (jd_jobId d) (s2, [s1] @ [s2])"
      unfolding s2_def by (rule update_keeps [OF p1]) (simp add: no_update_def)
    then have "processing_so_far (jd_jobId d) (snd run)"
      unfolding run_def using batches_from_keeps by simp
    then have p3: "processing_so_far (jd_jobId d) (fst (snd run), snd (snd run))" by simp
    have completed: "up_status (no_update\<lparr>up_status := Some ''completed'',
        up_progress := Some (Fin 100)\<rparr>) = Some ''completed''" by simp
    show ?thesis
    proof (cases "fst run")
      case (Inl e)
      with statuses_closed [OF p3 failed] c pending show ?thesis
        unfolding processJob_resolved [OF c]
        by (simp add: Let_def s1_def [symmetric] timestamps_def [symmetric] s2_def [symmetric]
              run_def [symmetric])
    next
      case (Inr x)
      with statuses_closed [OF p3 completed] c pending show ?thesis
        unfolding processJob_resolved [OF c]
        by (simp add: Let_def s1_def [symmetric] timestamps_def [symmetric] s2_def [symmetric]
              run_def [symmetric])
    qed
  qed
qed

lemma rnd_5_8: "rnd (5 / 8) = Fin (5 / 8)"
  by code_simp

lemma rnd_125_2: "rnd (125 / 2) = Fin (125 / 2)"
  by code_simp

lemma rnd_5_4: "rnd (5 / 4) = Fin (5 / 4)"
  by code_simp

lemma rnd_125: "rnd 125 = Fin 125"
  by code_simp

lemma progress_10_of_16:
  "jfloor (jmul (jdiv (num 10) (num 16)) (Fin 100)) = Fin 62"
  by (simp add: num_def rnd_5_8 rnd_125_2 floor_eq_iff)

lemma progress_20_of_16:
  "jfloor (jmul (jdiv (num 20) (num 16)) (Fin 100)) = Fin 125"
  by (simp add: num_def rnd_5_4 rnd_125)

lemma getTokenPrice_stale: "getTokenPrice stale_provider a n t = None"
  by (simp add: getTokenPrice_def getTokenPrice_run_def pRetry_def timeouts_price
        stale_provider_def price_attempt_def response_ok_def Let_def)

lemma creation_stale: "getTokenCreationDate stale_provider a n = Some 1700000000"
  by (simp add: getTokenCreationDate_def getTokenCreationDate_run_def pRetry_def
        timeouts_price stale_provider_def creation_attempt_def)

lemma store_from_nothing:
  "list_all (\<lambda>p. p = None) prices \<Longrightarrow>
   store_from storage tokenAddress network batch prices j st = (Inr (), st)"
proof (induction "length prices - j" arbitrary: j)
  case 0
  then show ?case by (subst store_from.simps) (simp add: ret_def)
next
  case (Suc n)
  then have lt: "j < length prices" and n: "n = length prices - (j + 1)" by auto
  from Suc.prems lt have "prices ! j = None" by (simp add: list_all_length)
  with lt Suc.hyps(1) [OF n Suc.prems] show ?case
    by (subst store_from.simps) simp
qed

lemma sixteen_days:
  "timestamps_from 1700000000 1701296000 [] =
     [1700000000, 1700086400, 1700172800, 1700259200, 1700345600, 1700432000, 1700518400,
      1700604800, 1700691200, 1700777600, 1700864000, 1700950400, 1701036800, 1701123200,
      1701209600, 1701296000]"
  by (simp add: timestamps_from.simps)

lemma store_from_stale:
  "store_from storage tokenAddress network batch
     (map (getTokenPrice stale_provider a n) batch) j st = (Inr (), st)"
  by (rule store_from_nothing) (simp add: list_all_iff getTokenPrice_stale)

lemma batches_16:
  "batches_from (traced MemStorage_ops) stale_provider sixteen_day_worker first_job sixteen 0 (s, h) =
     (Inr (), report (Fin 125) (report (Fin 62) s),
      h @ [report (Fin 62) s, report (Fin 125) (report (Fin 62) s)])"
  apply (subst batches_from.simps)
  apply (simp add: sixteen_def Let_def batchGetHistoricalPrices_map store_from_stale await_def
           traced_update logged_apply Mem_update_returns job_updateProgress_def ret_def
           batchSize_def progress_10_of_16 sixteen_day_worker_def first_job_def report_def)
  apply (subst batches_from.simps)
  apply (simp add: sixteen_def Let_def batchGetHistoricalPrices_map store_from_stale await_def
           traced_update logged_apply Mem_update_returns job_updateProgress_def ret_def
           batchSize_def progress_20_of_16 sixteen_day_worker_def first_job_def report_def)
  apply (subst batches_from.simps)
  apply (simp add: ret_def batchSize_def)
  done

lemma run_16_days:
  "processJob (traced MemStorage_ops) stale_provider sixteen_day_worker first_job (scheduled, []) =
     (let s1 = snd (Mem_updateBulkFetchJob 1 (mark ''processing'') scheduled);
          s2 = snd (Mem_updateBulkFetchJob 1 (no_update\<lparr>up_totalDays := Some (num 16)\<rparr>) s1);
          s3 = report (Fin 62) s2;
          s4 = report (Fin 125) s3;
          s5 = snd (Mem_updateBulkFetchJob 1
                 (no_update\<lparr>up_status := Some ''completed'', up_progress := Some (Fin 100)\<rparr>) s4)
      in (Inr (), s5, [s1, s2, s3, s4, s5]))"
proof -
  have c: "getTokenCreationDate stale_provider (jd_tokenAddress first_job) (jd_network first_job)
             = Some 1700000000" "(1700000000::int) \<noteq> 0"
    by (simp_all add: creation_stale)
  have days: "timestamps_from 1700000000 (now sixteen_day_worker) [] = sixteen"
    by (simp add: sixteen_day_worker_def sixteen_days sixteen_def)
  have len: "length sixteen = 16" by (simp add: sixteen_def)
  have jid: "jd_jobId first_job = 1" by (simp add: first_job_def)
  show ?thesis
    unfolding processJob_resolved [OF c]
    by (simp add: Let_def days len batches_16 jid)
qed

lemma status_finished: "status_at 1 finished = Some ''completed''"
proof -
  define s1 where "s1 = snd (Mem_updateBulkFetchJob 1 (mark ''processing'') scheduled)"
  define s2 where "s2 = snd (Mem_updateBulkFetchJob 1
                (no_update\<lparr>up_totalDays := Some (num 16)\<rparr>) s1)"
  define s3 where "s3 = report (Fin 62) s2"
  define s4 where "s4 = report (Fin 125) s3"
  have p1: "status_at 1 s1 = Some ''processing''"
    unfolding s1_def using status_after_update [OF status_scheduled, of "mark ''processing''"]
    by (simp add: mark_def no_update_def)
  have p2: "status_at 1 s2 = Some ''processing''"
    unfolding s2_def
    using status_after_update [OF p1, of "no_update\<lparr>up_totalDays := Some (num 16)\<rparr>"]
    by (simp add: no_update_def)
  have p3: "status_at 1 s3 = Some ''processing''"
    unfolding s3_def report_def
    using status_after_update [OF p2, of "no_update\<lparr>up_progress := Some (Fin 62)\<rparr>"]
    by (simp add: no_update_def)
  have p4: "status_at 1 s4 = Some ''processing''"
    unfolding s4_def report_def
    using status_after_update [OF p3, of "no_update\<lparr>up_progress := Some (Fin 125)\<rparr>"]
    by (simp add: no_update_def)
  have "finished = snd (Mem_updateBulkFetchJob 1
     (no_update\<lparr>up_status := Some ''completed'', up_progress := Some (Fin 100)\<rparr>) s4)"
    by (simp add: finished_def run_16_days Let_def s1_def s2_def s3_def s4_def)
  then show ?thesis
    using status_after_update [OF p4, of "no_update\<lparr>up_status := Some ''completed'',
      up_progress := Some (Fin 100)\<rparr>"] by simp
qed

text \<open>
  C9. A run of the worker on a job, with the in-memory storage, takes the job from the
  status it has, whatever it is, through processing (once or more) to completed when the
  run returns and to failed when it throws; the terminal status is written by the last
  call of the run, so nothing of the run follows it. For a job that is pending these are
  the statuses pending, processing, completed or failed. When the creation timestamp of
  the token cannot be determined, the run throws after two calls: the job is failed, its
  progress is what it was before the run, and no price point was written. The observed
  run returns what the run on the plain storage returns, and ends in the same state.
  The storage does not look at the status it replaces: an update that carries a status
  sets it, whatever the status was.
\<close>

theorem job_lifecycle:
  "(status_at (jd_jobId d) s = Some old \<longrightarrow>
     (case processJob (traced MemStorage_ops) alchemy worker d (s, []) of
        (r, s', h) \<Rightarrow>
          processJob MemStorage_ops alchemy worker d s = (r, s') \<and>
          (\<exists>k. map (status_at (jd_jobId d)) (s # h) =
                 Some old # replicate (Suc k) (Some ''processing'') @
                   [Some (case r of Inl e \<Rightarrow> ''failed'' | Inr x \<Rightarrow> ''completed'')]) \<and>
          last h = s' \<and>
          (getTokenCreationDate alchemy (jd_tokenAddress d) (jd_network d) = None \<or>
           getTokenCreationDate alchemy (jd_tokenAddress d) (jd_network d) = Some 0 \<longrightarrow>
             isl r \<and> length h = 2 \<and>
             status_at (jd_jobId d) s' = Some ''failed'' \<and>
             progress_at (jd_jobId d) s' = progress_at (jd_jobId d) s \<and>
             historicalPrices s' = historicalPrices s))) \<and>
   (status_at jobId t = Some before \<longrightarrow>
      fst (Mem_updateBulkFetchJob jobId u t) = Inr () \<and>
      status_at jobId (snd (Mem_updateBulkFetchJob jobId u t)) =
        Some (case up_status u of None \<Rightarrow> before | Some after \<Rightarrow> after))"
proof (intro conjI impI)
  assume old: "status_at (jd_jobId d) s = Some old"
  have same: "processJob MemStorage_ops alchemy worker d s =
      (fst (processJob (traced MemStorage_ops) alchemy worker d (s, [])),
       fst (snd (processJob (traced MemStorage_ops) alchemy worker d (s, []))))"
    using follows_processJob [of MemStorage_ops alchemy worker d]
    by (simp add: follows_def)
  show "case processJob (traced MemStorage_ops) alchemy worker d (s, []) of
        (r, s', h) \<Rightarrow>
          processJob MemStorage_ops alchemy worker d s = (r, s') \<and>
          (\<exists>k. map (status_at (jd_jobId d)) (s # h) =
                 Some old # replicate (Suc k) (Some ''processing'') @
                   [Some (case r of Inl e \<Rightarrow> ''failed'' | Inr x \<Rightarrow> ''completed'')]) \<and>
          last h = s' \<and>
          (getTokenCreationDate alchemy (jd_tokenAddress d) (jd_network d) = None \<or>
           getTokenCreationDate alchemy (jd_tokenAddress d) (jd_network d) = Some 0 \<longrightarrow>
             isl r \<and> length h = 2 \<and>
             status_at (jd_jobId d) s' = Some ''failed'' \<and>
             progress_at (jd_jobId d) s' = progress_at (jd_jobId d) s \<and>
             historicalPrices s' = historicalPrices s)"
    using run_of_job [OF old, of alchemy worker] same
    by (simp add: case_prod_unfold)
next
  show "fst (Mem_updateBulkFetchJob jobId u t) = Inr ()"
    by (rule Mem_update_returns)
next
  assume "status_at jobId t = Some before"
  then show "status_at jobId (snd (Mem_updateBulkFetchJob jobId u t)) =
        Some (case up_status u of None \<Rightarrow> before | Some after \<Rightarrow> after)"
    by (rule status_after_update)
qed

theorem completed_job_counterexample:
  "status_at 1 finished = Some ''completed'' \<and>
   map (status_at 1)
     (snd (snd (processJob (traced MemStorage_ops) not_found_provider sixteen_day_worker
        first_job (finished, [])))) = [Some ''processing'', Some ''failed'']"
proof -
  have jid: "jd_jobId first_job = 1" by (simp add: first_job_def)
  have unknown: "getTokenCreationDate not_found_provider (jd_tokenAddress first_job)
      (jd_network first_job) = None \<or>
    getTokenCreationDate not_found_provider (jd_tokenAddress first_job)
      (jd_network first_job) = Some 0"
    by (simp add: creation_unknown)
  have "map (status_at 1)
     (snd (snd (processJob (traced MemStorage_ops) not_found_provider sixteen_day_worker
        first_job (finished, [])))) = [Some ''processing'', Some ''failed'']"
    unfolding processJob_unresolved [OF unknown] jid
    using status_after_update [OF status_finished, of "mark ''processing''"]
      status_after_update [of 1 "snd (Mem_updateBulkFetchJob 1 (mark ''processing'') finished)"
        "''processing''" "mark ''failed''"]
    by (simp add: mark_def no_update_def)
  then show ?thesis using status_finished by simp
qed

theorem job_lifecycle_witness:
  "status_at (jd_jobId first_job) scheduled = Some ''pending'' \<and>
   map (status_at 1)
     (snd (snd (processJob (traced MemStorage_ops) not_found_provider sixteen_day_worker
        first_job (scheduled, [])))) = [Some ''processing'', Some ''failed''] \<and>
   progress_at 1
     (fst (snd (processJob (traced MemStorage_ops) not_found_provider sixteen_day_worker
        first_job (scheduled, [])))) = progress_at 1 scheduled \<and>
   status_at 1 finished = Some ''completed'' \<and>
   status_at 1 (snd (Mem_updateBulkFetchJob 1 (mark ''processing'') finished)) =
     Some ''processing''"
proof -
  have jid: "jd_jobId first_job = 1" by (simp add: first_job_def)
  have unknown: "getTokenCreationDate not_found_provider (jd_tokenAddress first_job)
      (jd_network first_job) = None \<or>
    getTokenCreationDate not_found_provider (jd_tokenAddress first_job)
      (jd_network first_job) = Some 0"
    by (simp add: creation_unknown)
  have pending: "status_at (jd_jobId first_job) scheduled = Some ''pending''"
    using status_scheduled by (simp add: jid)
  have run: "map (status_at 1) (scheduled #
      snd (snd (processJob (traced MemStorage_ops) not_found_provider sixteen_day_worker
        first_job (scheduled, [])))) =
      [Some ''pending'', Some ''processing'', Some ''failed'']"
    unfolding processJob_unresolved [OF unknown] jid
    using status_scheduled
      status_after_update [OF status_scheduled, of "mark ''processing''"]
      status_after_update [of 1 "snd (Mem_updateBulkFetchJob 1 (mark ''processing'') scheduled)"
        "''processing''" "mark ''failed''"]
    by (simp add: mark_def no_update_def)
  have progress: "progress_at 1
     (fst (snd (processJob (traced MemStorage_ops) not_found_provider sixteen_day_worker
        first_job (scheduled, [])))) = progress_at 1 scheduled"
    using job_lifecycle [where d = first_job and s = scheduled and old = "''pending''"
            and alchemy = not_found_provider and worker = sixteen_day_worker,
            THEN conjunct1, THEN mp, OF pending] unknown
    by (auto simp add: jid split: prod.splits)
  have again: "status_at 1 (snd (Mem_updateBulkFetchJob 1 (mark ''processing'') finished)) =
     Some ''processing''"
    using job_lifecycle [where jobId = 1 and t = finished and before = "''completed''"
            and u = "mark ''processing''", THEN conjunct2, THEN mp, OF status_finished]
    by (simp add: mark_def no_update_def)
  show ?thesis
    using pending run progress again status_finished by simp
qed

text \<open>
  C3. The run of the worker on a token created 15 days before the run, with a provider
  that has no price: 16 daily timestamps, two batches. The progress of the job is null
  after the first two calls, 62 after the first batch, 125 after the second batch, and
  100 when the job is completed.
\<close>

theorem progress_trace_16_days:
  "map (progress_at 1)
     (snd (snd (processJob (traced MemStorage_ops) stale_provider sixteen_day_worker first_job
        (scheduled, [])))) =
   [Some None, Some None, Some (Some (Fin 62)), Some (Some (Fin 125)), Some (Some (Fin 100))]"
proof -
  have c: "getTokenCreationDate stale_provider (jd_tokenAddress first_job) (jd_network first_job)
             = Some 1700000000" "(1700000000::int) \<noteq> 0"
    by (simp_all add: creation_stale)
  define s1 where "s1 = snd (Mem_updateBulkFetchJob 1 (mark ''processing'') scheduled)"
  define s2 where "s2 = snd (Mem_updateBulkFetchJob 1
                (no_update\<lparr>up_totalDays := Some (num 16)\<rparr>) s1)"
  define s3 where "s3 = report (Fin 62) s2"
  define s4 where "s4 = report (Fin 125) s3"
  define s5 where "s5 = snd (Mem_updateBulkFetchJob 1
     (no_update\<lparr>up_status := Some ''completed'', up_progress := Some (Fin 100)\<rparr>) s4)"
  have days: "timestamps_from 1700000000 (now sixteen_day_worker) [] = sixteen"
    by (simp add: sixteen_day_worker_def sixteen_days sixteen_def)
  have len: "length sixteen = 16" by (simp add: sixteen_def)
  have jid: "jd_jobId first_job = 1" by (simp add: first_job_def)
  have run: "snd (snd (processJob (traced MemStorage_ops) stale_provider sixteen_day_worker
      first_job (scheduled, []))) = [s1, s2, s3, s4, s5]"
    unfolding processJob_resolved [OF c]
    by (simp add: Let_def days len batches_16 s1_def s2_def s3_def s4_def s5_def jid)
  have p1: "progress_at 1 s1 = Some None"
    unfolding s1_def using progress_after [OF progress_scheduled, of "mark ''processing''"]
    by (simp add: mark_def no_update_def)
  have p2: "progress_at 1 s2 = Some None"
    unfolding s2_def using progress_after [OF p1, of "no_update\<lparr>up_totalDays := Some (num 16)\<rparr>"]
    by (simp add: no_update_def)
  have p3: "progress_at 1 s3 = Some (Some (Fin 62))"
    unfolding s3_def report_def
    using progress_after [OF p2, of "no_update\<lparr>up_progress := Some (Fin 62)\<rparr>"] by simp
  have p4: "progress_at 1 s4 = Some (Some (Fin 125))"
    unfolding s4_def report_def
    using progress_after [OF p3, of "no_update\<lparr>up_progress := Some (Fin 125)\<rparr>"] by simp
  have p5: "progress_at 1 s5 = Some (Some (Fin 100))"
    unfolding s5_def
    using progress_after [OF p4, of "no_update\<lparr>up_status := Some ''completed'',
      up_progress := Some (Fin 100)\<rparr>"] by simp
  show ?thesis unfolding run using p1 p2 p3 p4 p5 by simp
qed

end
